theory Spec2Isabelle
  imports Main
begin

section \<open>Go primitives used by the agent\<close>

text \<open>
  Strings are byte strings. The helpers below follow the Go standard library on ASCII
  input: white space is the ASCII white space recognised by \<^verbatim>\<open>unicode.IsSpace\<close>, and
  \<^verbatim>\<open>strings.ToLower\<close> maps \<^verbatim>\<open>A-Z\<close> to \<^verbatim>\<open>a-z\<close>. Multi-byte UTF-8 sequences are
  passed through unchanged.
\<close>

definition go_quot :: "int \<Rightarrow> int \<Rightarrow> int" where
  \<comment> \<open>Go's integer division truncates towards zero.\<close>
  "go_quot a b = sgn a * sgn b * (\<bar>a\<bar> div \<bar>b\<bar>)"

definition go_rem :: "int \<Rightarrow> int \<Rightarrow> int" where
  \<comment> \<open>Go's remainder has the sign of the dividend.\<close>
  "go_rem a b = a - b * go_quot a b"

definition isSpace :: "char \<Rightarrow> bool" where
  "isSpace c \<longleftrightarrow> (of_char c :: nat) \<in> {9, 10, 11, 12, 13, 32}"

definition TrimSpace :: "string \<Rightarrow> string" where
  "TrimSpace s = rev (dropWhile isSpace (rev (dropWhile isSpace s)))"

fun Fields_from :: "string \<Rightarrow> string \<Rightarrow> string list" where
  "Fields_from cur [] = (if cur = [] then [] else [cur])"
| "Fields_from cur (c # cs) =
     (if isSpace c then (if cur = [] then Fields_from [] cs else cur # Fields_from [] cs)
      else Fields_from (cur @ [c]) cs)"

definition Fields :: "string \<Rightarrow> string list" where
  "Fields s = Fields_from [] s"

fun Split_from :: "char \<Rightarrow> string \<Rightarrow> string \<Rightarrow> string list" where
  "Split_from sep cur [] = [cur]"
| "Split_from sep cur (c # cs) =
     (if c = sep then cur # Split_from sep [] cs else Split_from sep (cur @ [c]) cs)"

definition Split :: "string \<Rightarrow> char \<Rightarrow> string list" where
  \<comment> \<open>\<^verbatim>\<open>strings.Split(s, sep)\<close> for a one-byte separator.\<close>
  "Split s sep = Split_from sep [] s"

definition SplitN2 :: "string \<Rightarrow> char \<Rightarrow> string list" where
  \<comment> \<open>\<^verbatim>\<open>strings.SplitN(s, sep, 2)\<close> for a one-byte separator.\<close>
  "SplitN2 s sep =
     (if sep \<in> set s
      then [takeWhile (\<lambda>c. c \<noteq> sep) s, tl (dropWhile (\<lambda>c. c \<noteq> sep) s)]
      else [s])"

definition Join :: "string list \<Rightarrow> string \<Rightarrow> string" where
  "Join parts sep = (case parts of [] \<Rightarrow> [] | p # ps \<Rightarrow> p @ concat (map (\<lambda>q. sep @ q) ps))"

definition ReplaceAll :: "string \<Rightarrow> char \<Rightarrow> char \<Rightarrow> string" where
  \<comment> \<open>\<^verbatim>\<open>strings.ReplaceAll\<close> of one byte by another.\<close>
  "ReplaceAll s old new = map (\<lambda>c. if c = old then new else c) s"

definition lowerChar :: "char \<Rightarrow> char" where
  "lowerChar c = (let n = (of_char c :: nat) in if 65 \<le> n \<and> n \<le> 90 then char_of (n + 32) else c)"

definition ToLower :: "string \<Rightarrow> string" where
  "ToLower s = map lowerChar s"

definition isDigit :: "char \<Rightarrow> bool" where
  "isDigit c \<longleftrightarrow> 48 \<le> (of_char c :: nat) \<and> (of_char c :: nat) \<le> 57"

fun digitsVal :: "int \<Rightarrow> string \<Rightarrow> int" where
  "digitsVal acc [] = acc"
| "digitsVal acc (c # cs) = digitsVal (acc * 10 + (of_char c - 48)) cs"

definition Atoi :: "string \<Rightarrow> int option" where
  \<comment> \<open>\<^verbatim>\<open>strconv.Atoi\<close>: an optional sign, then decimal digits; \<open>None\<close> is a non-nil
      error (syntax, or a value outside the 64-bit range).\<close>
  "Atoi s =
     (let neg = (s \<noteq> [] \<and> hd s = CHR ''-'');
          body = (if s \<noteq> [] \<and> (hd s = CHR ''+'' \<or> hd s = CHR ''-'') then tl s else s)
      in if body = [] \<or> \<not> list_all isDigit body then None
         else (let v = (if neg then - digitsVal 0 body else digitsVal 0 body)
               in if v < - (2 ^ 63) \<or> 2 ^ 63 - 1 < v then None else Some v))"

section \<open>Errors\<close>

datatype error =
    EntryEmpty
  | InvalidTimeRange string
  | InvalidTimeValue string
  | InvalidHour string
  | InvalidMinute string
  | InvalidWeekday string
  | InvalidDayRange string
  | ParseWindow string error
  | VerifyPolicy error
  | Wrapped string error
  | HostError string
  | NotExist
  | JsonError
  | PathEmpty
  | FieldRequired string
  | IntervalNotPositive string

section \<open>Time\<close>

text \<open>
  A \<^verbatim>\<open>time.Time\<close> is an instant (seconds and nanoseconds since the Unix epoch) read in a
  zone given by its offset east of UTC in seconds.
\<close>

record gotime =
  unixSec :: int
  nsec :: int
  zoneOffset :: int

definition TruncateMinute :: "gotime \<Rightarrow> gotime" where
  \<comment> \<open>\<^verbatim>\<open>t.Truncate(time.Minute)\<close>: rounds the absolute instant down to a whole minute.\<close>
  "TruncateMinute t = t\<lparr>unixSec := unixSec t - unixSec t mod 60, nsec := 0\<rparr>"

definition Weekday :: "gotime \<Rightarrow> int" where
  \<comment> \<open>Sunday is 0; 1970-01-01 was a Thursday.\<close>
  "Weekday t = ((unixSec t + zoneOffset t) div 86400 + 4) mod 7"

definition Hour :: "gotime \<Rightarrow> int" where
  "Hour t = ((unixSec t + zoneOffset t) mod 86400) div 3600"

definition Minute :: "gotime \<Rightarrow> int" where
  "Minute t = ((unixSec t + zoneOffset t) mod 3600) div 60"

definition AddMinutes :: "gotime \<Rightarrow> int \<Rightarrow> gotime" where
  \<comment> \<open>\<^verbatim>\<open>t.Add(time.Duration(n) * time.Minute)\<close>\<close>
  "AddMinutes t n = t\<lparr>unixSec := unixSec t + 60 * n\<rparr>"

definition UTC :: "gotime \<Rightarrow> gotime" where
  "UTC t = t\<lparr>zoneOffset := 0\<rparr>"

definition UnixNano :: "gotime \<Rightarrow> int" where
  "UnixNano t = unixSec t * 1000000000 + nsec t"

section \<open>Maintenance windows (internal/updates/manager.go)\<close>

definition minutesPerDay :: int where
  "minutesPerDay = 24 * 60"

definition minutesPerWeek :: int where
  "minutesPerWeek = 7 * minutesPerDay"

definition nsPerMinute :: int where
  "nsPerMinute = 60000000000"

definition nsPerHour :: int where
  "nsPerHour = 3600000000000"

record maintenanceWindowSegment =
  seg_start :: int
  seg_end :: int

definition weekdayLookup :: "string \<rightharpoonup> int" where
  "weekdayLookup = map_of
     [(''sun'', 0), (''sunday'', 0),
      (''mon'', 1), (''monday'', 1),
      (''tue'', 2), (''tues'', 2), (''tuesday'', 2),
      (''wed'', 3), (''weds'', 3), (''wednesday'', 3),
      (''thu'', 4), (''thur'', 4), (''thurs'', 4), (''thursday'', 4),
      (''fri'', 5), (''friday'', 5),
      (''sat'', 6), (''saturday'', 6)]"

definition parseWeekday :: "string \<Rightarrow> error + int" where
  "parseWeekday token =
     (case weekdayLookup (ToLower token) of
        None \<Rightarrow> Inl (InvalidWeekday token)
      | Some day \<Rightarrow> Inr day)"

definition parseClock :: "string \<Rightarrow> error + int" where
  \<comment> \<open>The result is a \<^verbatim>\<open>time.Duration\<close> in nanoseconds.\<close>
  "parseClock v =
     (let parts = Split v (CHR '':'') in
      if length parts \<noteq> 2 then Inl (InvalidTimeValue v)
      else (case Atoi (parts ! 0) of
          None \<Rightarrow> Inl (InvalidHour (parts ! 0))
        | Some hour \<Rightarrow>
            if hour < 0 \<or> hour > 23 then Inl (InvalidHour (parts ! 0))
            else (case Atoi (parts ! 1) of
                None \<Rightarrow> Inl (InvalidMinute (parts ! 1))
              | Some minute \<Rightarrow>
                  if minute < 0 \<or> minute > 59 then Inl (InvalidMinute (parts ! 1))
                  else Inr (hour * nsPerHour + minute * nsPerMinute))))"

definition parseTimeRange :: "string \<Rightarrow> error + (int \<times> int)" where
  "parseTimeRange v =
     (let pieces = Split v (CHR ''-'') in
      if length pieces \<noteq> 2 then Inl (InvalidTimeRange v)
      else (case parseClock (pieces ! 0) of
          Inl e \<Rightarrow> Inl e
        | Inr start \<Rightarrow>
            (case parseClock (pieces ! 1) of
               Inl e \<Rightarrow> Inl e
             | Inr fin \<Rightarrow> Inr (start, fin))))"

text \<open>
  The inner loop of \<^verbatim>\<open>parseDays\<close> over a day range: \<^verbatim>\<open>for i := 0; i < 7; i++\<close>,
  leaving at the first day equal to the upper bound. The first argument counts the
  iterations that remain.
\<close>

fun rangeLoop :: "nat \<Rightarrow> int \<Rightarrow> int \<Rightarrow> int \<Rightarrow> int set \<Rightarrow> int list \<Rightarrow> int set \<times> int list" where
  "rangeLoop 0 i start fin seen days = (seen, days)"
| "rangeLoop (Suc n) i start fin seen days =
     (let day = go_rem (start + i) 7;
          seen' = (if day \<notin> seen then insert day seen else seen);
          days' = (if day \<notin> seen then days @ [day] else days)
      in if day = fin then (seen', days') else rangeLoop n (i + 1) start fin seen' days')"

fun parseDaysLoop :: "string list \<Rightarrow> int set \<Rightarrow> int list \<Rightarrow> error + int list" where
  "parseDaysLoop [] seen days = Inr days"
| "parseDaysLoop (tok # rest) seen days =
     (let token = TrimSpace tok in
      if token = [] then parseDaysLoop rest seen days
      else if CHR ''-'' \<in> set token then
        (let bounds = SplitN2 token (CHR ''-'') in
         if length bounds \<noteq> 2 then Inl (InvalidDayRange token)
         else (case parseWeekday (bounds ! 0) of
             Inl e \<Rightarrow> Inl e
           | Inr start \<Rightarrow>
               (case parseWeekday (bounds ! 1) of
                  Inl e \<Rightarrow> Inl e
                | Inr fin \<Rightarrow>
                    parseDaysLoop rest
                      (fst (rangeLoop 7 0 start fin seen days))
                      (snd (rangeLoop 7 0 start fin seen days)))))
      else (case parseWeekday token of
          Inl e \<Rightarrow> Inl e
        | Inr day \<Rightarrow>
            if day \<notin> seen then parseDaysLoop rest (insert day seen) (days @ [day])
            else parseDaysLoop rest seen days))"

definition parseDays :: "string \<Rightarrow> error + int list" where
  "parseDays v =
     (let trimmed = TrimSpace v in
      if trimmed = [] \<or> trimmed = ''*'' then Inr []
      else parseDaysLoop (Split (ReplaceAll trimmed (CHR '' '') (CHR '','')) (CHR '','')) {} [])"

fun segmentsFor :: "int list \<Rightarrow> int \<Rightarrow> int \<Rightarrow> maintenanceWindowSegment list" where
  "segmentsFor [] minutesStart minutesEnd = []"
| "segmentsFor (day # days) minutesStart minutesEnd =
     (let base = day * minutesPerDay in
      if minutesStart = minutesEnd then
        \<lparr>seg_start = base, seg_end = base + minutesPerDay\<rparr> # segmentsFor days minutesStart minutesEnd
      else if minutesEnd > minutesStart then
        \<lparr>seg_start = base + minutesStart, seg_end = base + minutesEnd\<rparr>
          # segmentsFor days minutesStart minutesEnd
      else
        (let nextDay = go_rem (day + 1) 7 in
         \<lparr>seg_start = base + minutesStart, seg_end = base + minutesPerDay\<rparr>
           # \<lparr>seg_start = nextDay * minutesPerDay, seg_end = nextDay * minutesPerDay + minutesEnd\<rparr>
           # segmentsFor days minutesStart minutesEnd))"

definition buildSegments :: "int list \<Rightarrow> int \<Rightarrow> int \<Rightarrow> maintenanceWindowSegment list" where
  "buildSegments days start fin =
     (let minutesStart = go_quot start nsPerMinute;
          minutesEnd = go_quot fin nsPerMinute;
          days' = (if length days = 0 then [0, 1, 2, 3, 4, 5, 6] else days)
      in segmentsFor days' minutesStart minutesEnd)"

definition parseMaintenanceWindow :: "string \<Rightarrow> error + maintenanceWindowSegment list" where
  "parseMaintenanceWindow entry =
     (let parts = Fields entry in
      if length parts = 0 then Inl EntryEmpty
      else (case parseTimeRange (last parts) of
          Inl e \<Rightarrow> Inl (ParseWindow entry e)
        | Inr (start, fin) \<Rightarrow>
            if length parts > 1 then
              (case parseDays (Join (butlast parts) '' '') of
                 Inl e \<Rightarrow> Inl (ParseWindow entry e)
               | Inr days \<Rightarrow> Inr (buildSegments days start fin))
            else Inr (buildSegments [] start fin)))"

fun parseMaintenanceWindows_from ::
  "maintenanceWindowSegment list \<Rightarrow> string list \<Rightarrow> error + maintenanceWindowSegment list" where
  "parseMaintenanceWindows_from segments [] = Inr segments"
| "parseMaintenanceWindows_from segments (entry # entries) =
     (let trimmed = TrimSpace entry in
      if trimmed = [] then parseMaintenanceWindows_from segments entries
      else (case parseMaintenanceWindow trimmed of
          Inl e \<Rightarrow> Inl e
        | Inr parsed \<Rightarrow> parseMaintenanceWindows_from (segments @ parsed) entries))"

definition parseMaintenanceWindows :: "string list \<Rightarrow> error + maintenanceWindowSegment list" where
  "parseMaintenanceWindows entries = parseMaintenanceWindows_from [] entries"

definition wallClockIs :: "gotime \<Rightarrow> int \<Rightarrow> int \<Rightarrow> int \<Rightarrow> bool" where
  \<comment> \<open>The instant, cut to the minute, reads weekday \<open>wd\<close> (Sunday is 0), hour \<open>hh\<close> and
      minute \<open>mm\<close> in its own zone.\<close>
  "wallClockIs t wd hh mm \<longleftrightarrow>
     Weekday (TruncateMinute t) = wd \<and> Hour (TruncateMinute t) = hh \<and> Minute (TruncateMinute t) = mm"

definition minuteOfWeek :: "gotime \<Rightarrow> int" where
  "minuteOfWeek t =
     (let tt = TruncateMinute t in Weekday tt * minutesPerDay + Hour tt * 60 + Minute tt)"

fun inSomeSegment :: "int \<Rightarrow> maintenanceWindowSegment list \<Rightarrow> bool" where
  "inSomeSegment minute [] = False"
| "inSomeSegment minute (seg # segs) =
     (if minute \<ge> seg_start seg \<and> minute < seg_end seg then True else inSomeSegment minute segs)"

definition maintenanceAllowsNow :: "maintenanceWindowSegment list \<Rightarrow> gotime \<Rightarrow> bool" where
  "maintenanceAllowsNow segments now =
     (if length segments = 0 then True
      else inSomeSegment (minuteOfWeek now) segments)"

fun bestDeltaLoop :: "int \<Rightarrow> int \<Rightarrow> maintenanceWindowSegment list \<Rightarrow> int" where
  "bestDeltaLoop minute bestDelta [] = bestDelta"
| "bestDeltaLoop minute bestDelta (seg # segs) =
     (let start = seg_start seg;
          delta = (if start > minute then start - minute else minutesPerWeek - minute + start)
      in if delta = 0 then bestDeltaLoop minute bestDelta segs
         else if delta < bestDelta then bestDeltaLoop minute delta segs
         else bestDeltaLoop minute bestDelta segs)"

definition nextMaintenanceWindow :: "maintenanceWindowSegment list \<Rightarrow> gotime \<Rightarrow> gotime option" where
  \<comment> \<open>\<open>None\<close> is the result \<^verbatim>\<open>(time.Time{}, false)\<close>.\<close>
  "nextMaintenanceWindow segments now =
     (if length segments = 0 then None
      else (let base = TruncateMinute now;
                minute = minuteOfWeek base;
                bestDelta = bestDeltaLoop minute (minutesPerWeek * 2) segments
            in if bestDelta = minutesPerWeek * 2 then None
               else Some (AddMinutes base bestDelta)))"


section \<open>Events, the host and the clock\<close>

fun natDigits :: "nat \<Rightarrow> string" where
  "natDigits n = (if n < 10 then [char_of (48 + n)] else natDigits (n div 10) @ [char_of (48 + n mod 10)])"

declare natDigits.simps [simp del]

definition Itoa :: "int \<Rightarrow> string" where
  \<comment> \<open>\<^verbatim>\<open>fmt.Sprintf("%d", n)\<close> and \<^verbatim>\<open>strconv.Itoa(n)\<close>\<close>
  "Itoa i = (if i < 0 then CHR ''-'' # natDigits (nat (- i)) else natDigits (nat i))"

text \<open>
  Event payloads are the \<^verbatim>\<open>map[string]string\<close> literals of the source, kept as
  association lists. A value is a literal string, the text \<^verbatim>\<open>err.Error()\<close> of an error,
  or the text \<^verbatim>\<open>t.Format(time.RFC3339)\<close> of an instant.
\<close>

datatype pval = Str string | ErrText error | TimeText gotime

record event =
  ev_id :: string
  ev_type :: string
  ev_timestamp :: gotime
  ev_payload :: "(string \<times> pval) list"

record Status =
  Channel :: string
  State :: string
  RebootRequired :: bool
  NeedsRollback :: bool
  RollbackTarget :: string
  BootedChecksum :: string

record AppDefinition =
  app_ID :: string
  app_Branch :: string
  app_Source :: string

record AppsPolicy =
  Required :: "AppDefinition list"

record UpdatePolicy =
  up_Channel :: string
  up_RebootRequired :: bool
  Maintenance :: "string list"

record BrowserPolicy =
  Homepage :: string
  Extensions :: "string list"
  AllowDevTools :: bool
  ManagedBookmarks :: "(string \<times> string) list"

record WiFiNetwork =
  SSID :: string
  Passphrase :: string
  wifi_Security :: string
  Hidden :: bool
  Metered :: bool
  EAP :: "(string \<times> string) list"

record VPNProfile =
  vpn_Name :: string
  ServiceType :: string
  vpn_Data :: "(string \<times> string) list"
  Secrets :: "(string \<times> string) list"
  AutoConnect :: bool

record NetworkPolicy =
  WiFi :: "WiFiNetwork list"
  VPNs :: "VPNProfile list"
  VPNDNS :: "string list"

record SecurityPolicy =
  SELinuxEnforce :: bool
  SSHEnabled :: bool
  USBGuard :: bool
  USBGuardRules :: "string list"
  AllowRootLogin :: bool

record PolicyDocument =
  pd_Apps :: AppsPolicy
  pd_Updates :: UpdatePolicy
  pd_Browser :: BrowserPolicy
  pd_Network :: NetworkPolicy
  pd_Security :: SecurityPolicy

record PolicyEnvelope =
  Version :: string
  Signature :: string
  Policy :: PolicyDocument
  env_DeviceToken :: string

record Credentials =
  DeviceID :: string
  DeviceToken :: string
  cred_Version :: string

text \<open>
  Persisted files are kept at the level of the JSON document they hold: a zero-byte
  file, a file that does not decode, a list of events, a policy envelope, or the
  credential file \<^verbatim>\<open>{credentials, policy}\<close>.
\<close>

datatype document =
    Blank
  | Malformed
  | EventsDoc "event list"
  | EnvelopeDoc PolicyEnvelope
  | CredentialsDoc Credentials PolicyEnvelope

text \<open>
  Every interaction of the agent with the outside world is an action. The host records
  the actions performed so far, oldest first, and the files the agent persists. What the
  outside world answers to the action performed as interaction number \<open>n\<close> is given by
  the environment: the reading of the wall clock, whether a command or system call fails
  (and with which message), the status reported by \<^verbatim>\<open>rpm-ostree status --json\<close> once
  parsed, whether \<^verbatim>\<open>rollback.target\<close> is active, and the answer of the control plane.
\<close>

datatype action =
    ReadClock
  | FetchStatus
  | Rebase string
  | RollbackCmd
  | RebootCmd
  | ProbeRollbackTarget
  | EnsureSELinux bool
  | ConfigureSSH bool
  | ToggleService string bool
  | WriteUSBGuardRules "string list"
  | RemoveUSBGuardRules
  | MkdirAll string
  | ReadFile string
  | WriteFile string
  | Chmod string
  | Rename string string
  | PullPolicy string string

datatype pull_result = NotModified | PullFailed string | Pulled PolicyEnvelope

record host =
  trace :: "action list"
  files :: "string \<rightharpoonup> document"

record env =
  wall :: "nat \<Rightarrow> gotime"
  fails :: "nat \<Rightarrow> action \<Rightarrow> string option"
  statusOut :: "nat \<Rightarrow> Status"
  targetActive :: "nat \<Rightarrow> bool"
  pullOut :: "nat \<Rightarrow> pull_result"
  filepathDir :: "string \<Rightarrow> string"

definition perform :: "env \<Rightarrow> action \<Rightarrow> host \<Rightarrow> error option \<times> host" where
  "perform E a h =
     (map_option HostError (fails E (length (trace h)) a), h\<lparr>trace := trace h @ [a]\<rparr>)"

definition timeNow :: "env \<Rightarrow> host \<Rightarrow> gotime \<times> host" where
  "timeNow E h = (wall E (length (trace h)), h\<lparr>trace := trace h @ [ReadClock]\<rparr>)"

definition NewEvent :: "env \<Rightarrow> string \<Rightarrow> (string \<times> pval) list \<Rightarrow> host \<Rightarrow> event \<times> host" where
  \<comment> \<open>The struct literal reads the clock twice: first for the id, then for the timestamp.\<close>
  "NewEvent E eventType payload h =
     (let (t1, h1) = timeNow E h;
          (t2, h2) = timeNow E h1
      in (\<lparr>ev_id = Itoa (UnixNano t1), ev_type = eventType,
           ev_timestamp = UTC t2, ev_payload = payload\<rparr>, h2))"

section \<open>Update manager (internal/updates/manager.go)\<close>

record Result =
  res_Status :: string
  res_RebootRequired :: bool
  Events :: "event list"

record updatesManager =
  lastRollbackAttempt :: string

definition fetchStatus :: "env \<Rightarrow> host \<Rightarrow> (error + Status) \<times> host" where
  \<comment> \<open>Runs \<^verbatim>\<open>rpm-ostree status --json\<close>; \<^verbatim>\<open>parseStatus\<close> of its output is the
      environment's \<open>statusOut\<close>.\<close>
  "fetchStatus E h =
     (case perform E FetchStatus h of
        (Some err, h') \<Rightarrow> (Inl err, h')
      | (None, h') \<Rightarrow> (Inr (statusOut E (length (trace h))), h'))"

definition rebase :: "env \<Rightarrow> string \<Rightarrow> host \<Rightarrow> error option \<times> host" where
  "rebase E channel h = perform E (Rebase channel) h"

definition triggerReboot :: "env \<Rightarrow> host \<Rightarrow> error option \<times> host" where
  "triggerReboot E h = perform E RebootCmd h"

definition rollback :: "env \<Rightarrow> host \<Rightarrow> error option \<times> host" where
  "rollback E h = perform E RollbackCmd h"

definition rollbackRequested :: "env \<Rightarrow> host \<Rightarrow> (bool \<times> error option) \<times> host" where
  \<comment> \<open>\<^verbatim>\<open>systemctl is-active --quiet rollback.target\<close>; a missing \<^verbatim>\<open>systemctl\<close> and exit
      code 3 both give \<^verbatim>\<open>(false, nil)\<close>.\<close>
  "rollbackRequested E h =
     (case perform E ProbeRollbackTarget h of
        (Some err, h') \<Rightarrow> ((False, Some err), h')
      | (None, h') \<Rightarrow> ((targetActive E (length (trace h)), None), h'))"

definition addEvent :: "Result \<Rightarrow> event \<Rightarrow> Result" where
  "addEvent result ev = result\<lparr>Events := Events result @ [ev]\<rparr>"

definition applyChannel ::
  "env \<Rightarrow> UpdatePolicy \<Rightarrow> Status \<Rightarrow> Result \<Rightarrow> host \<Rightarrow> (Result \<times> error option) \<times> host" where
  \<comment> \<open>Lines 92-103 of \<^verbatim>\<open>Manager.Apply\<close>: the channel rebase.\<close>
  "applyChannel E policy status result h =
     (if up_Channel policy \<noteq> [] \<and> Channel status \<noteq> up_Channel policy then
        (case rebase E (up_Channel policy) h of
           (Some err, h1) \<Rightarrow>
             (let (ev, h2) = NewEvent E ''update.apply.failure''
                     [(''channel'', Str (up_Channel policy)), (''error'', ErrText err)] h1
              in ((addEvent result ev, Some err), h2))
         | (None, h1) \<Rightarrow>
             (let (ev, h2) = NewEvent E ''update.apply.success''
                     [(''channel'', Str (up_Channel policy))] h1;
                  result1 = addEvent result ev
              in (case fetchStatus E h2 of
                   (Inl ferr, h3) \<Rightarrow> ((result1, None), h3)
                 | (Inr fresh, h3) \<Rightarrow>
                     ((result1\<lparr>res_Status := State fresh,
                               res_RebootRequired := RebootRequired fresh\<rparr>, None), h3))))
      else ((result, None), h))"

definition applyReboot ::
  "env \<Rightarrow> UpdatePolicy \<Rightarrow> maintenanceWindowSegment list \<Rightarrow> Result \<Rightarrow> host
     \<Rightarrow> (Result \<times> error option) \<times> host" where
  \<comment> \<open>Lines 104-121 of \<^verbatim>\<open>Manager.Apply\<close>: the reboot gate.\<close>
  "applyReboot E policy windows result h =
     (if up_RebootRequired policy \<and> res_RebootRequired result then
        (let (now, h1) = timeNow E h in
         if maintenanceAllowsNow windows now then
           (case triggerReboot E h1 of
              (Some err, h2) \<Rightarrow>
                (let (ev, h3) = NewEvent E ''update.reboot.failure'' [(''error'', ErrText err)] h2
                 in ((addEvent result ev, Some err), h3))
            | (None, h2) \<Rightarrow>
                (let (ev, h3) = NewEvent E ''update.reboot.triggered'' [(''time'', TimeText now)] h2
                 in ((addEvent result ev, None), h3)))
         else
           (case nextMaintenanceWindow windows now of
              Some next \<Rightarrow>
                (let (ev, h2) = NewEvent E ''update.reboot.deferred''
                        [(''scheduled_for'', TimeText next)] h1
                 in ((addEvent result ev, None), h2))
            | None \<Rightarrow>
                (let (ev, h2) = NewEvent E ''update.reboot.deferred''
                        [(''reason'', Str ''no_window'')] h1
                 in ((addEvent result ev, None), h2))))
      else ((result, None), h))"

definition updates_Apply :: "env \<Rightarrow> UpdatePolicy \<Rightarrow> host \<Rightarrow> (Result \<times> error option) \<times> host" where
  "updates_Apply E policy h =
     (case fetchStatus E h of
        (Inl err, h1) \<Rightarrow>
          ((\<lparr>res_Status = ''unavailable'', res_RebootRequired = False, Events = []\<rparr>, Some err), h1)
      | (Inr status, h1) \<Rightarrow>
          (let result = \<lparr>res_Status = State status,
                         res_RebootRequired = RebootRequired status, Events = []\<rparr>
           in (case parseMaintenanceWindows (Maintenance policy) of
                Inl err \<Rightarrow>
                  (let (ev, h2) = NewEvent E ''update.reboot.failure'' [(''error'', ErrText err)] h1
                   in ((addEvent result ev, Some err), h2))
              | Inr windows \<Rightarrow>
                  (let ((result1, cerr), h2) = applyChannel E policy status result h1
                   in (case cerr of
                        Some err \<Rightarrow> ((result1, Some err), h2)
                      | None \<Rightarrow> applyReboot E policy windows result1 h2)))))"

definition EnsureRollback ::
  "env \<Rightarrow> updatesManager \<Rightarrow> host \<Rightarrow> ((event list \<times> error option) \<times> updatesManager) \<times> host" where
  "EnsureRollback E m h =
     (case fetchStatus E h of
        (Inl err, h1) \<Rightarrow> ((([], Some err), m), h1)
      | (Inr status, h1) \<Rightarrow>
          (let (needsRollback, h2) =
                 (if \<not> NeedsRollback status then
                    (let ((pending, derr), h') = rollbackRequested E h1
                     in (case derr of
                          Some e \<Rightarrow> (False, h')
                        | None \<Rightarrow> (pending, h')))
                  else (True, h1))
           in if \<not> needsRollback then ((([], None), m\<lparr>lastRollbackAttempt := []\<rparr>), h2)
              else
                (let identifier = (if BootedChecksum status = [] then Channel status
                                   else BootedChecksum status)
                 in if identifier \<noteq> [] \<and> identifier = lastRollbackAttempt m
                    then ((([], None), m), h2)
                    else
                      (let m' = m\<lparr>lastRollbackAttempt := identifier\<rparr> in
                       (case rollback E h2 of
                         (Some err, h3) \<Rightarrow>
                           (let (ev, h4) = NewEvent E ''update.rollback.failure''
                                   [(''error'', ErrText err)] h3
                            in ((([ev], Some err), m'), h4))
                       | (None, h3) \<Rightarrow>
                           (let payload = (if RollbackTarget status \<noteq> []
                                           then [(''target'', Str (RollbackTarget status))] else []);
                                (ev, h4) = NewEvent E ''update.rollback.triggered'' payload h3
                            in ((([ev], None), m'), h4)))))))"


section \<open>Security manager (internal/security)\<close>

text \<open>
  The five helpers of the security manager act on the host only (SELinux mode, the SSH
  drop-in, \<^verbatim>\<open>systemctl\<close>, the USBGuard rules file); each is one action whose outcome is
  the environment's.
\<close>

definition ensureSELinux :: "env \<Rightarrow> bool \<Rightarrow> host \<Rightarrow> error option \<times> host" where
  "ensureSELinux E enforce h = perform E (EnsureSELinux enforce) h"

definition configureSSH :: "env \<Rightarrow> bool \<Rightarrow> host \<Rightarrow> error option \<times> host" where
  "configureSSH E allowRoot h = perform E (ConfigureSSH allowRoot) h"

definition toggleService :: "env \<Rightarrow> string \<Rightarrow> bool \<Rightarrow> host \<Rightarrow> error option \<times> host" where
  "toggleService E service enable h = perform E (ToggleService service enable) h"

definition writeUSBGuardRules :: "env \<Rightarrow> string list \<Rightarrow> host \<Rightarrow> error option \<times> host" where
  "writeUSBGuardRules E rules h = perform E (WriteUSBGuardRules rules) h"

definition removeUSBGuardRules :: "env \<Rightarrow> host \<Rightarrow> error option \<times> host" where
  "removeUSBGuardRules E h = perform E RemoveUSBGuardRules h"

definition report ::
  "env \<Rightarrow> error option \<times> host \<Rightarrow> string \<Rightarrow> string \<Rightarrow> (string \<times> pval) list \<Rightarrow> event \<times> host" where
  \<comment> \<open>The \<^verbatim>\<open>if err != nil { failure event } else { success event }\<close> shape shared by the controls.\<close>
  "report E outcome failureType successType successPayload =
     (case fst outcome of
        Some err \<Rightarrow> NewEvent E failureType [(''error'', ErrText err)] (snd outcome)
      | None \<Rightarrow> NewEvent E successType successPayload (snd outcome))"

definition security_Apply ::
  "env \<Rightarrow> SecurityPolicy \<Rightarrow> host \<Rightarrow> (event list \<times> error option) \<times> host" where
  "security_Apply E policy h =
     (let (ev1, h1) = report E (ensureSELinux E (SELinuxEnforce policy) h)
            ''security.selinux.failure'' ''security.selinux.success''
            [(''state'', Str (if SELinuxEnforce policy then ''enforcing'' else ''permissive''))];
          (ev2, h2) = report E (configureSSH E (AllowRootLogin policy) h1)
            ''security.ssh.config.failure'' ''security.ssh.config.success''
            [(''root_login'', Str (if AllowRootLogin policy then ''enabled'' else ''disabled''))];
          (ev3, h3) = report E (toggleService E ''sshd'' (SSHEnabled policy) h2)
            ''security.ssh.failure'' ''security.ssh.success''
            [(''state'', Str (if SSHEnabled policy then ''enabled'' else ''disabled''))];
          (evs4, h4) =
            (if USBGuard policy then
               (let (ev, h') = report E (writeUSBGuardRules E (USBGuardRules policy) h3)
                      ''security.usbguard.failure'' ''security.usbguard.rules''
                      [(''count'', Str (Itoa (int (length (USBGuardRules policy)))))]
                in ([ev], h'))
             else ([], snd (removeUSBGuardRules E h3)));
          (ev5, h5) = report E (toggleService E ''usbguard'' (USBGuard policy) h4)
            ''security.usbguard.failure'' ''security.usbguard.success''
            [(''state'', Str (if USBGuard policy then ''enabled'' else ''disabled''))]
      in (([ev1, ev2, ev3] @ evs4 @ [ev5], None), h5))"

section \<open>Files (internal/util)\<close>

definition readFile :: "env \<Rightarrow> string \<Rightarrow> host \<Rightarrow> (error + document) \<times> host" where
  \<comment> \<open>\<^verbatim>\<open>os.ReadFile\<close>\<close>
  "readFile E path h =
     (case perform E (ReadFile path) h of
        (Some err, h') \<Rightarrow> (Inl err, h')
      | (None, h') \<Rightarrow>
          (case files h path of None \<Rightarrow> (Inl NotExist, h') | Some d \<Rightarrow> (Inr d, h')))"

definition writeFile :: "env \<Rightarrow> string \<Rightarrow> document \<Rightarrow> host \<Rightarrow> error option \<times> host" where
  \<comment> \<open>\<^verbatim>\<open>os.WriteFile\<close>\<close>
  "writeFile E path d h =
     (case perform E (WriteFile path) h of
        (Some err, h') \<Rightarrow> (Some err, h')
      | (None, h') \<Rightarrow> (None, h'\<lparr>files := (files h')(path \<mapsto> d)\<rparr>))"

definition renameFile :: "env \<Rightarrow> string \<Rightarrow> string \<Rightarrow> host \<Rightarrow> error option \<times> host" where
  \<comment> \<open>\<^verbatim>\<open>os.Rename\<close>\<close>
  "renameFile E src dst h =
     (case perform E (Rename src dst) h of
        (Some err, h') \<Rightarrow> (Some err, h')
      | (None, h') \<Rightarrow>
          (case files h src of
             None \<Rightarrow> (Some NotExist, h')
           | Some d \<Rightarrow> (None, h'\<lparr>files := ((files h')(src := None))(dst \<mapsto> d)\<rparr>)))"

definition EnsureDir :: "env \<Rightarrow> string \<Rightarrow> host \<Rightarrow> error option \<times> host" where
  "EnsureDir E path h =
     (if path = [] then (Some PathEmpty, h)
      else (case perform E (MkdirAll path) h of
              (Some err, h') \<Rightarrow> (Some (Wrapped ''create dir'' err), h')
            | (None, h') \<Rightarrow> (None, h')))"

definition EnsureParentDir :: "env \<Rightarrow> string \<Rightarrow> host \<Rightarrow> error option \<times> host" where
  "EnsureParentDir E filePath h =
     (let dir = filepathDir E filePath in
      if dir = ''.'' \<or> dir = [] then (None, h) else EnsureDir E dir h)"

definition WriteSecretFile :: "env \<Rightarrow> string \<Rightarrow> document \<Rightarrow> host \<Rightarrow> error option \<times> host" where
  "WriteSecretFile E path d h =
     (if path = [] then (Some PathEmpty, h)
      else (case EnsureParentDir E path h of
          (Some err, h1) \<Rightarrow> (Some err, h1)
        | (None, h1) \<Rightarrow>
            (case writeFile E (path @ ''.tmp'') d h1 of
               (Some err, h2) \<Rightarrow> (Some (Wrapped ''write temp secret'' err), h2)
             | (None, h2) \<Rightarrow>
                 (case perform E (Chmod (path @ ''.tmp'')) h2 of
                    (Some err, h3) \<Rightarrow> (Some (Wrapped ''chmod temp secret'' err), h3)
                  | (None, h3) \<Rightarrow>
                      (case renameFile E (path @ ''.tmp'') path h3 of
                         (Some err, h4) \<Rightarrow> (Some (Wrapped ''rename secret'' err), h4)
                       | (None, h4) \<Rightarrow> (None, h4))))))"

section \<open>Event queue (internal/events)\<close>

record Queue =
  q_path :: string

definition decodeEvents :: "document \<Rightarrow> event list option" where
  \<comment> \<open>\<^verbatim>\<open>json.Unmarshal(data, &events)\<close>\<close>
  "decodeEvents d = (case d of EventsDoc es \<Rightarrow> Some es | _ \<Rightarrow> None)"

definition queue_readLocked :: "env \<Rightarrow> Queue \<Rightarrow> host \<Rightarrow> (error + event list) \<times> host" where
  "queue_readLocked E q h =
     (case readFile E (q_path q) h of
        (Inl err, h') \<Rightarrow>
          (if err = NotExist then (Inr [], h') else (Inl (Wrapped ''read events'' err), h'))
      | (Inr d, h') \<Rightarrow>
          (if d = Blank then (Inr [], h')
           else (case decodeEvents d of
                   None \<Rightarrow> (Inl (Wrapped ''decode events'' JsonError), h')
                 | Some es \<Rightarrow> (Inr es, h'))))"

definition queue_Load :: "env \<Rightarrow> Queue \<Rightarrow> host \<Rightarrow> (error + event list) \<times> host" where
  "queue_Load E q h =
     (case readFile E (q_path q) h of
        (Inl err, h') \<Rightarrow>
          (if err = NotExist then (Inr [], h') else (Inl (Wrapped ''read events'' err), h'))
      | (Inr d, h') \<Rightarrow>
          (if d = Blank then (Inr [], h')
           else (case decodeEvents d of
                   None \<Rightarrow> (Inl (Wrapped ''decode events'' JsonError), h')
                 | Some es \<Rightarrow> (Inr es, h'))))"

definition queue_writeLocked :: "env \<Rightarrow> Queue \<Rightarrow> event list \<Rightarrow> host \<Rightarrow> error option \<times> host" where
  "queue_writeLocked E q evs h =
     (case EnsureParentDir E (q_path q) h of
        (Some err, h1) \<Rightarrow> (Some err, h1)
      | (None, h1) \<Rightarrow>
          (case writeFile E (q_path q @ ''.tmp'') (EventsDoc evs) h1 of
             (Some err, h2) \<Rightarrow> (Some (Wrapped ''write temp events'' err), h2)
           | (None, h2) \<Rightarrow>
               (case renameFile E (q_path q @ ''.tmp'') (q_path q) h2 of
                  (Some err, h3) \<Rightarrow> (Some (Wrapped ''rename events'' err), h3)
                | (None, h3) \<Rightarrow> (None, h3))))"

definition queue_Append :: "env \<Rightarrow> Queue \<Rightarrow> event list \<Rightarrow> host \<Rightarrow> error option \<times> host" where
  "queue_Append E q evs h =
     (if length evs = 0 then (None, h)
      else (case queue_readLocked E q h of
              (Inl err, h1) \<Rightarrow> (Some err, h1)
            | (Inr existing, h1) \<Rightarrow> queue_writeLocked E q (existing @ evs) h1))"

definition queue_Replace :: "env \<Rightarrow> Queue \<Rightarrow> event list \<Rightarrow> host \<Rightarrow> error option \<times> host" where
  "queue_Replace E q evs h = queue_writeLocked E q evs h"

section \<open>Policy manager (internal/policy/manager.go)\<close>

text \<open>
  The manager holds an optional verifier (the Ed25519 check of \<^verbatim>\<open>Verifier.Verify\<close>, a
  function of the envelope), the path of the policy cache, the five adapters and the
  last version applied. The apps, browser and network adapters are parameters; each
  adapter maps its sub-policy and the host to its events, its error and the new host.
\<close>

record policyManager =
  verifier :: "(PolicyEnvelope \<Rightarrow> error option) option"
  cache :: string
  apps :: "AppsPolicy \<Rightarrow> host \<Rightarrow> (event list \<times> error option) \<times> host"
  browser :: "BrowserPolicy \<Rightarrow> host \<Rightarrow> (event list \<times> error option) \<times> host"
  updates :: "UpdatePolicy \<Rightarrow> host \<Rightarrow> (Result \<times> error option) \<times> host"
  network :: "NetworkPolicy \<Rightarrow> host \<Rightarrow> (event list \<times> error option) \<times> host"
  security :: "SecurityPolicy \<Rightarrow> host \<Rightarrow> (event list \<times> error option) \<times> host"
  lastVersion :: string

definition policy_persist :: "env \<Rightarrow> policyManager \<Rightarrow> PolicyEnvelope \<Rightarrow> host \<Rightarrow> error option \<times> host" where
  "policy_persist E m envelope h =
     (case EnsureParentDir E (cache m) h of
        (Some err, h1) \<Rightarrow> (Some err, h1)
      | (None, h1) \<Rightarrow>
          (case writeFile E (cache m @ ''.tmp'') (EnvelopeDoc envelope) h1 of
             (Some err, h2) \<Rightarrow> (Some (Wrapped ''write policy cache'' err), h2)
           | (None, h2) \<Rightarrow>
               (case renameFile E (cache m @ ''.tmp'') (cache m) h2 of
                  (Some err, h3) \<Rightarrow> (Some (Wrapped ''rename policy cache'' err), h3)
                | (None, h3) \<Rightarrow> (None, h3))))"

definition policy_Apply ::
  "env \<Rightarrow> policyManager \<Rightarrow> PolicyEnvelope \<Rightarrow> host
     \<Rightarrow> ((event list \<times> error option) \<times> policyManager) \<times> host" where
  "policy_Apply E m envelope h =
     (case (case verifier m of None \<Rightarrow> None | Some verify \<Rightarrow> verify envelope) of
        Some err \<Rightarrow> ((([], Some (VerifyPolicy err)), m), h)
      | None \<Rightarrow>
     (case policy_persist E m envelope h of
        (Some err, h0) \<Rightarrow> ((([], Some err), m), h0)
      | (None, h0) \<Rightarrow>
     (let ((events1, err1), h1) = apps m (pd_Apps (Policy envelope)) h0;
          generated1 = [] @ events1
      in (case err1 of Some err \<Rightarrow> (((generated1, Some err), m), h1) | None \<Rightarrow>
     (let ((events2, err2), h2) = browser m (pd_Browser (Policy envelope)) h1;
          generated2 = generated1 @ events2
      in (case err2 of Some err \<Rightarrow> (((generated2, Some err), m), h2) | None \<Rightarrow>
     (let ((result, err3), h3) = updates m (pd_Updates (Policy envelope)) h2;
          generated3 = generated2 @ Events result
      in (case err3 of Some err \<Rightarrow> (((generated3, Some err), m), h3) | None \<Rightarrow>
     (let ((events4, err4), h4) = network m (pd_Network (Policy envelope)) h3;
          generated4 = generated3 @ events4
      in (case err4 of Some err \<Rightarrow> (((generated4, Some err), m), h4) | None \<Rightarrow>
     (let ((events5, err5), h5) = security m (pd_Security (Policy envelope)) h4;
          generated5 = generated4 @ events5
      in (case err5 of Some err \<Rightarrow> (((generated5, Some err), m), h5) | None \<Rightarrow>
     (let m' = m\<lparr>lastVersion := Version envelope\<rparr>;
          (ev, h6) = NewEvent E ''policy.apply.success'' [(''version'', Str (Version envelope))] h5
      in (((generated5 @ [ev], None), m'), h6))))))))))))))"

definition decodeEnvelope :: "document \<Rightarrow> PolicyEnvelope option" where
  \<comment> \<open>\<^verbatim>\<open>json.Unmarshal(data, &env)\<close>; a file that holds a document of another kind is
      taken as one that does not decode.\<close>
  "decodeEnvelope d = (case d of EnvelopeDoc e \<Rightarrow> Some e | _ \<Rightarrow> None)"

definition CachedPolicy :: "env \<Rightarrow> policyManager \<Rightarrow> host \<Rightarrow> (error + PolicyEnvelope) \<times> host" where
  "CachedPolicy E m h =
     (case readFile E (cache m) h of
        (Inl err, h') \<Rightarrow> (Inl err, h')
      | (Inr d, h') \<Rightarrow>
          (case decodeEnvelope d of
             None \<Rightarrow> (Inl (Wrapped ''decode cached policy'' JsonError), h')
           | Some e \<Rightarrow> (Inr e, h')))"

definition LastVersion :: "policyManager \<Rightarrow> string" where
  "LastVersion m = lastVersion m"

section \<open>Configuration (internal/config)\<close>

text \<open>
  \<^verbatim>\<open>agent.New\<close> reads \<^verbatim>\<open>cfg.StateQueuePath\<close> and the README lists
  \<^verbatim>\<open>state_queue_path\<close> among the keys of the configuration file, so the field is part
  of the record. \<^verbatim>\<open>Validate\<close> is translated as it is written. Durations are
  nanoseconds.
\<close>

record Enrollment =
  PreSharedKey :: string
  ConfigPath :: string

record Intervals =
  PolicyPoll :: int
  StateReport :: int
  EventFlush :: int
  RetryBackoff :: int
  RetryMaxDelay :: int

record Config =
  BackendURL :: string
  DeviceTokenPath :: string
  PolicyCachePath :: string
  EventQueuePath :: string
  StateQueuePath :: string
  PolicyPublicKey :: string
  cfg_Enrollment :: Enrollment
  cfg_Intervals :: Intervals
  LoggingLevel :: string

definition Validate :: "Config \<Rightarrow> error option" where
  "Validate c =
     (if BackendURL c = [] then Some (FieldRequired ''backend_url'')
      else if DeviceTokenPath c = [] then Some (FieldRequired ''device_token_path'')
      else if PolicyCachePath c = [] then Some (FieldRequired ''policy_cache_path'')
      else if EventQueuePath c = [] then Some (FieldRequired ''event_queue_path'')
      else if PolicyPublicKey c = [] then Some (FieldRequired ''policy_public_key'')
      else if PolicyPoll (cfg_Intervals c) = 0 then Some (IntervalNotPositive ''intervals.policy_poll'')
      else if StateReport (cfg_Intervals c) = 0 then Some (IntervalNotPositive ''intervals.state_report'')
      else if EventFlush (cfg_Intervals c) = 0 then Some (IntervalNotPositive ''intervals.event_flush'')
      else None)"

section \<open>Enrollment manager and the policy tick (internal/enroll, internal/agent)\<close>

record enrollManager =
  credentialsPath :: string

definition saveCredentials ::
  "env \<Rightarrow> enrollManager \<Rightarrow> Credentials \<Rightarrow> PolicyEnvelope \<Rightarrow> host \<Rightarrow> error option \<times> host" where
  "saveCredentials E m cred policy h =
     (case WriteSecretFile E (credentialsPath m) (CredentialsDoc cred policy) h of
        (Some err, h') \<Rightarrow> (Some (Wrapped ''write credentials'' err), h')
      | (None, h') \<Rightarrow> (None, h'))"

text \<open>
  Modelled from the spec: \<^verbatim>\<open>Manager.Persist\<close> of the enrollment manager. The policy
  tick calls it, but its body is not among the sources. The spec gives it as the
  operation \<^verbatim>\<open>persist(credentials, envelope)\<close> whose write goes through the
  secure-file discipline, and the credential file as \<^verbatim>\<open>{credentials, policy}\<close>; that
  is the write \<^verbatim>\<open>saveCredentials\<close> performs.
\<close>

definition Persist ::
  "env \<Rightarrow> enrollManager \<Rightarrow> Credentials \<Rightarrow> PolicyEnvelope \<Rightarrow> host \<Rightarrow> error option \<times> host" where
  "Persist E m cred envelope h = saveCredentials E m cred envelope h"

record agent =
  credentials :: Credentials
  policyMgr :: policyManager
  enrollMgr :: enrollManager
  eventQueue :: Queue

definition appendEvents :: "env \<Rightarrow> agent \<Rightarrow> event list \<Rightarrow> host \<Rightarrow> host" where
  \<comment> \<open>A failure to persist the events is logged only.\<close>
  "appendEvents E a evs h =
     (if length evs = 0 then h else snd (queue_Append E (eventQueue a) evs h))"

definition pullVersion :: "env \<Rightarrow> agent \<Rightarrow> host \<Rightarrow> string \<times> host" where
  \<comment> \<open>Lines 187-192 of \<^verbatim>\<open>pullAndApplyPolicy\<close>: the version to report.\<close>
  "pullVersion E a h =
     (let version = LastVersion (policyMgr a) in
      if version = [] then
        (case CachedPolicy E (policyMgr a) h of
           (Inl err, h') \<Rightarrow> (version, h')
         | (Inr cached, h') \<Rightarrow> (Version cached, h'))
      else (version, h))"

definition clientPullPolicy :: "env \<Rightarrow> string \<Rightarrow> string \<Rightarrow> host \<Rightarrow> pull_result \<times> host" where
  \<comment> \<open>\<^verbatim>\<open>Client.PullPolicy\<close>: the answer is the control plane's.\<close>
  "clientPullPolicy E token version h =
     (pullOut E (length (trace h)), h\<lparr>trace := trace h @ [PullPolicy token version]\<rparr>)"

definition applyPulled :: "env \<Rightarrow> agent \<Rightarrow> PolicyEnvelope \<Rightarrow> host \<Rightarrow> (error option \<times> agent) \<times> host" where
  \<comment> \<open>Lines 202-216 of \<^verbatim>\<open>pullAndApplyPolicy\<close>.\<close>
  "applyPulled E a envelope h =
     (let (((evs, err), pm), h1) = policy_Apply E (policyMgr a) envelope h;
          a1 = a\<lparr>policyMgr := pm\<rparr>;
          h2 = appendEvents E a1 evs h1
      in (case err of
            Some e \<Rightarrow> ((Some e, a1), h2)
          | None \<Rightarrow>
              (let a2 = (if env_DeviceToken envelope \<noteq> []
                            \<and> env_DeviceToken envelope \<noteq> DeviceToken (credentials a1)
                         then a1\<lparr>credentials := (credentials a1)\<lparr>DeviceToken := env_DeviceToken envelope\<rparr>\<rparr>
                         else a1);
                   a3 = a2\<lparr>credentials := (credentials a2)\<lparr>cred_Version := Version envelope\<rparr>\<rparr>
               in (case Persist E (enrollMgr a3) (credentials a3) envelope h2 of
                     (Some e, h3) \<Rightarrow> ((Some (Wrapped ''persist credentials'' e), a3), h3)
                   | (None, h3) \<Rightarrow> ((None, a3), h3)))))"

definition pullAndApplyPolicy :: "env \<Rightarrow> agent \<Rightarrow> host \<Rightarrow> (error option \<times> agent) \<times> host" where
  "pullAndApplyPolicy E a h =
     (let (version, h1) = pullVersion E a h in
      (case clientPullPolicy E (DeviceToken (credentials a)) version h1 of
         (NotModified, h2) \<Rightarrow> ((None, a), h2)
       | (PullFailed msg, h2) \<Rightarrow> ((Some (HostError msg), a), h2)
       | (Pulled envelope, h2) \<Rightarrow> applyPulled E a envelope h2))"

definition wrap64 :: "int \<Rightarrow> int" where
  \<comment> \<open>A \<^verbatim>\<open>time.Duration\<close> is an \<^verbatim>\<open>int64\<close> of nanoseconds: arithmetic wraps around.\<close>
  "wrap64 x = (x + 2 ^ 63) mod 2 ^ 64 - 2 ^ 63"

definition backoffNext :: "int \<Rightarrow> int \<Rightarrow> int \<Rightarrow> error option \<Rightarrow> int \<times> int \<Rightarrow> int \<times> int" where
  \<comment> \<open>Lines 371-386 of \<^verbatim>\<open>backoffLoop\<close>: from the error of \<^verbatim>\<open>work\<close> and the current
      \<^verbatim>\<open>(wait, delay)\<close>, the wait before the next attempt and the next delay. The context
      is not modelled, so no error is a cancellation.\<close>
  "backoffNext interval baseBackoff maxDelay err wd =
     (case err of
        Some e \<Rightarrow>
          (snd wd,
           if snd wd < maxDelay
           then (if wrap64 (snd wd * 2) > maxDelay then maxDelay else wrap64 (snd wd * 2))
           else snd wd)
      | None \<Rightarrow> (interval, baseBackoff))"

definition policyLoopPass ::
  "env \<Rightarrow> int \<Rightarrow> int \<Rightarrow> int \<Rightarrow> agent \<Rightarrow> int \<times> int \<Rightarrow> host \<Rightarrow> ((int \<times> int) \<times> agent) \<times> host" where
  \<comment> \<open>One pass of \<^verbatim>\<open>policyLoop\<close>: the policy tick is the \<^verbatim>\<open>work\<close> of \<^verbatim>\<open>backoffLoop\<close>, and its
      error decides the next wait.\<close>
  "policyLoopPass E interval baseBackoff maxDelay a wd h =
     ((backoffNext interval baseBackoff maxDelay (fst (fst (pullAndApplyPolicy E a h))) wd,
       snd (fst (pullAndApplyPolicy E a h))),
      snd (pullAndApplyPolicy E a h))"


section \<open>Specification-level definitions\<close>

text \<open>
  The fan-out of the reconciliation pipeline in the words of the specification: run the
  adapters in the order of the list, collect their events, stop at the first failure
  and return the events collected so far together with that failure.
\<close>

fun fanOut ::
  "(host \<Rightarrow> (event list \<times> error option) \<times> host) list \<Rightarrow> host
     \<Rightarrow> (event list \<times> error option) \<times> host" where
  "fanOut [] h = (([], None), h)"
| "fanOut (adapter # rest) h =
     (case snd (fst (adapter h)) of
        Some err \<Rightarrow> adapter h
      | None \<Rightarrow>
          ((fst (fst (adapter h)) @ fst (fst (fanOut rest (snd (adapter h)))),
            snd (fst (fanOut rest (snd (adapter h))))),
           snd (fanOut rest (snd (adapter h)))))"

definition updatesAdapter ::
  "policyManager \<Rightarrow> UpdatePolicy \<Rightarrow> host \<Rightarrow> (event list \<times> error option) \<times> host" where
  \<comment> \<open>The updates adapter contributes the events of its result.\<close>
  "updatesAdapter m p h =
     ((Events (fst (fst (updates m p h))), snd (fst (updates m p h))), snd (updates m p h))"

definition adaptersOf ::
  "policyManager \<Rightarrow> PolicyDocument \<Rightarrow> (host \<Rightarrow> (event list \<times> error option) \<times> host) list" where
  \<comment> \<open>The fixed order: apps, browser, updates, network, security.\<close>
  "adaptersOf m p =
     [apps m (pd_Apps p), browser m (pd_Browser p), updatesAdapter m (pd_Updates p),
      network m (pd_Network p), security m (pd_Security p)]"

definition apply_spec ::
  "env \<Rightarrow> policyManager \<Rightarrow> PolicyEnvelope \<Rightarrow> host
     \<Rightarrow> ((event list \<times> error option) \<times> policyManager) \<times> host" where
  \<comment> \<open>Verify, persist, fan out, then report success and record the version.\<close>
  "apply_spec E m envelope h =
     (case (case verifier m of None \<Rightarrow> None | Some verify \<Rightarrow> verify envelope) of
        Some err \<Rightarrow> ((([], Some (VerifyPolicy err)), m), h)
      | None \<Rightarrow>
          (case fst (policy_persist E m envelope h) of
             Some err \<Rightarrow> ((([], Some err), m), snd (policy_persist E m envelope h))
           | None \<Rightarrow>
               (let out = fanOut (adaptersOf m (Policy envelope)) (snd (policy_persist E m envelope h))
                in (case snd (fst out) of
                      Some err \<Rightarrow> ((fst out, m), snd out)
                    | None \<Rightarrow>
                        (let created = NewEvent E ''policy.apply.success''
                               [(''version'', Str (Version envelope))] (snd out)
                         in (((fst (fst out) @ [fst created], None),
                              m\<lparr>lastVersion := Version envelope\<rparr>), snd created))))))"

fun appendEach :: "env \<Rightarrow> Queue \<Rightarrow> event list \<Rightarrow> host \<Rightarrow> error option \<times> host" where
  \<comment> \<open>One \<^verbatim>\<open>Append\<close> call per event, in order, up to the first failure.\<close>
  "appendEach E q [] h = (None, h)"
| "appendEach E q (x # xs) h =
     (case fst (queue_Append E q [x] h) of
        Some err \<Rightarrow> queue_Append E q [x] h
      | None \<Rightarrow> appendEach E q xs (snd (queue_Append E q [x] h)))"

fun ensureRollbackTimes :: "nat \<Rightarrow> env \<Rightarrow> updatesManager \<Rightarrow> host \<Rightarrow> updatesManager \<times> host" where
  \<comment> \<open>A run of consecutive \<^verbatim>\<open>EnsureRollback\<close> calls, as the state loop makes them.\<close>
  "ensureRollbackTimes 0 E m h = (m, h)"
| "ensureRollbackTimes (Suc n) E m h =
     ensureRollbackTimes n E (snd (fst (EnsureRollback E m h))) (snd (EnsureRollback E m h))"

definition rollbackIdentifier :: "Status \<Rightarrow> string" where
  \<comment> \<open>The booted checksum, falling back to the channel.\<close>
  "rollbackIdentifier status =
     (if BootedChecksum status = [] then Channel status else BootedChecksum status)"

definition rollbacks :: "host \<Rightarrow> nat" where
  \<comment> \<open>How often the rollback command has been invoked.\<close>
  "rollbacks h = count_list (trace h) RollbackCmd"

section \<open>Sample inputs\<close>

definition monFriSegments :: "maintenanceWindowSegment list" where
  "monFriSegments =
     [\<lparr>seg_start = 1560, seg_end = 1620\<rparr>, \<lparr>seg_start = 3000, seg_end = 3060\<rparr>,
      \<lparr>seg_start = 4440, seg_end = 4500\<rparr>, \<lparr>seg_start = 5880, seg_end = 5940\<rparr>,
      \<lparr>seg_start = 7320, seg_end = 7380\<rparr>]"

definition sunNightSegments :: "maintenanceWindowSegment list" where
  "sunNightSegments =
     [\<lparr>seg_start = 1380, seg_end = 1440\<rparr>, \<lparr>seg_start = 1440, seg_end = 1500\<rparr>]"

definition utc :: "int \<Rightarrow> gotime" where
  "utc s = \<lparr>unixSec = s, nsec = 0, zoneOffset = 0\<rparr>"

definition sampleStatus :: "bool \<Rightarrow> bool \<Rightarrow> Status" where
  "sampleStatus reboot broken =
     \<lparr>Channel = ''evergreenos:stable'', State = ''idle'', RebootRequired = reboot,
      NeedsRollback = broken, RollbackTarget = ''Y'', BootedChecksum = ''X''\<rparr>"

definition sampleDir :: "string \<Rightarrow> string" where
  \<comment> \<open>\<^verbatim>\<open>filepath.Dir\<close> on a clean absolute path.\<close>
  "sampleDir p = rev (tl (dropWhile (\<lambda>c. c \<noteq> CHR ''/'') (rev p)))"

definition envFrozen :: env where
  \<comment> \<open>Nothing fails, a reboot is pending, and the clock reads Monday 2024-01-01 04:00 UTC
      at every reading.\<close>
  "envFrozen =
     \<lparr>wall = (\<lambda>n. utc 1704081600), fails = (\<lambda>n a. None),
      statusOut = (\<lambda>n. sampleStatus True False), targetActive = (\<lambda>n. False),
      pullOut = (\<lambda>n. NotModified), filepathDir = sampleDir\<rparr>"

definition envTicking :: env where
  \<comment> \<open>As \<open>envFrozen\<close>, with a clock that advances by a nanosecond at every interaction.\<close>
  "envTicking = envFrozen\<lparr>wall := (\<lambda>n. \<lparr>unixSec = 1704081600, nsec = int n, zoneOffset = 0\<rparr>)\<rparr>"

definition envBroken :: env where
  \<comment> \<open>The booted deployment \<open>X\<close> needs a rollback at every status query.\<close>
  "envBroken = envFrozen\<lparr>statusOut := (\<lambda>n. sampleStatus False True)\<rparr>"

definition envRelapse :: env where
  \<comment> \<open>The booted deployment \<open>X\<close> needs a rollback, is reported healthy at the status
      query made as interaction 4, and needs a rollback again afterwards.\<close>
  "envRelapse = envFrozen\<lparr>statusOut := (\<lambda>n. sampleStatus False (n \<noteq> 4))\<rparr>"

definition hostEmpty :: host where
  "hostEmpty = \<lparr>trace = [], files = Map.empty\<rparr>"

definition rebootPolicy :: UpdatePolicy where
  "rebootPolicy = \<lparr>up_Channel = [], up_RebootRequired = True, Maintenance = []\<rparr>"

definition lockedDown :: SecurityPolicy where
  "lockedDown = \<lparr>SELinuxEnforce = True, SSHEnabled = False, USBGuard = False,
                 USBGuardRules = [], AllowRootLogin = False\<rparr>"

definition envelopeV2 :: PolicyEnvelope where
  "envelopeV2 =
     \<lparr>Version = ''v2'', Signature = ''c2ln'',
      Policy = \<lparr>pd_Apps = \<lparr>Required = []\<rparr>,
                pd_Updates = \<lparr>up_Channel = [], up_RebootRequired = False, Maintenance = []\<rparr>,
                pd_Browser = \<lparr>Homepage = [], Extensions = [], AllowDevTools = False,
                              ManagedBookmarks = []\<rparr>,
                pd_Network = \<lparr>WiFi = [], VPNs = [], VPNDNS = []\<rparr>,
                pd_Security = lockedDown\<rparr>,
      env_DeviceToken = ''t2''\<rparr>"

definition envRotate :: env where
  \<comment> \<open>The control plane answers every pull with \<open>envelopeV2\<close>, which rotates the token.\<close>
  "envRotate = envFrozen\<lparr>pullOut := (\<lambda>n. Pulled envelopeV2)\<rparr>"

definition idle :: "host \<Rightarrow> (event list \<times> error option) \<times> host" where
  \<comment> \<open>An adapter with nothing to do.\<close>
  "idle h = (([], None), h)"

definition sampleManager :: "env \<Rightarrow> policyManager" where
  "sampleManager E =
     \<lparr>verifier = None, cache = ''/var/lib/evergreen/policy.json'',
      apps = (\<lambda>p. idle), browser = (\<lambda>p. idle), updates = updates_Apply E,
      network = (\<lambda>p. idle), security = security_Apply E, lastVersion = ''v1''\<rparr>"

definition rejecting :: "PolicyEnvelope \<Rightarrow> error option" where
  \<comment> \<open>A verifier whose pinned key matches no signature.\<close>
  "rejecting envelope = Some (HostError ''signature verification failed'')"

definition sampleAgent :: "env \<Rightarrow> agent" where
  "sampleAgent E =
     \<lparr>credentials = \<lparr>DeviceID = ''d1'', DeviceToken = ''t1'', cred_Version = ''v1''\<rparr>,
      policyMgr = sampleManager E,
      enrollMgr = \<lparr>credentialsPath = ''/etc/evergreen/token''\<rparr>,
      eventQueue = \<lparr>q_path = ''/var/lib/evergreen/events.json''\<rparr>\<rparr>"

definition configWithoutStateQueue :: Config where
  \<comment> \<open>The configuration of \<^verbatim>\<open>TestLoadAndValidate\<close> without its \<^verbatim>\<open>state_queue_path\<close>.\<close>
  "configWithoutStateQueue =
     \<lparr>BackendURL = ''https://example.com'', DeviceTokenPath = ''/etc/evergreen/token'',
      PolicyCachePath = ''/var/lib/evergreen/policy.json'',
      EventQueuePath = ''/var/lib/evergreen/events.json'', StateQueuePath = [],
      PolicyPublicKey = ''/etc/evergreen/policy.pem'',
      cfg_Enrollment = \<lparr>PreSharedKey = ''secret'', ConfigPath = ''/etc/evergreen/enroll.json''\<rparr>,
      cfg_Intervals = \<lparr>PolicyPoll = 30000000000, StateReport = 60000000000,
                        EventFlush = 15000000000, RetryBackoff = 5000000000,
                        RetryMaxDelay = 300000000000\<rparr>,
      LoggingLevel = ''debug''\<rparr>"

definition sampleQueue :: Queue where
  "sampleQueue = \<lparr>q_path = ''/var/lib/evergreen/events.json''\<rparr>"

definition firstEvent :: event where
  \<comment> \<open>The events of \<^verbatim>\<open>TestQueueAppendLoadAndReplace\<close>.\<close>
  "firstEvent = \<lparr>ev_id = ''1'', ev_type = ''test'', ev_timestamp = utc 1700000000,
                 ev_payload = [(''k'', Str ''v'')]\<rparr>"

definition secondEvent :: event where
  "secondEvent = \<lparr>ev_id = ''2'', ev_type = ''second'', ev_timestamp = utc 1700000100,
                  ev_payload = []\<rparr>"

definition envNoOstree :: env where
  \<comment> \<open>As \<open>envFrozen\<close>, on a host where \<^verbatim>\<open>rpm-ostree status\<close> fails.\<close>
  "envNoOstree =
     envFrozen\<lparr>fails := (\<lambda>n a. if a = FetchStatus then Some ''rpm-ostree not available'' else None)\<rparr>"

definition afterApply :: "env \<Rightarrow> agent \<Rightarrow> PolicyEnvelope \<Rightarrow> host \<Rightarrow> host" where
  \<comment> \<open>The host once the policy tick has applied the envelope and enqueued the events.\<close>
  "afterApply E a envelope h =
     appendEvents E (a\<lparr>policyMgr := snd (fst (policy_Apply E (policyMgr a) envelope h))\<rparr>)
       (fst (fst (fst (policy_Apply E (policyMgr a) envelope h))))
       (snd (policy_Apply E (policyMgr a) envelope h))"

definition secureWrite :: "env \<Rightarrow> string \<Rightarrow> action list" where
  \<comment> \<open>The actions of one successful \<^verbatim>\<open>WriteSecretFile\<close> of a path.\<close>
  "secureWrite E path =
     (if filepathDir E path = ''.'' \<or> filepathDir E path = [] then []
      else [MkdirAll (filepathDir E path)])
     @ [WriteFile (path @ ''.tmp''), Chmod (path @ ''.tmp''), Rename (path @ ''.tmp'') path]"

definition thirdEvent :: event where
  "thirdEvent = \<lparr>ev_id = ''3'', ev_type = ''third'', ev_timestamp = utc 1700000200,
                 ev_payload = []\<rparr>"

definition hostQueued :: host where
  \<comment> \<open>A host whose queue file already holds \<open>firstEvent\<close>, as after a restart.\<close>
  "hostQueued =
     \<lparr>trace = [], files = [''/var/lib/evergreen/events.json'' \<mapsto> EventsDoc [firstEvent]]\<rparr>"

definition isSecurityControl :: "action \<Rightarrow> bool" where
  "isSecurityControl a =
     (case a of
        EnsureSELinux enforce \<Rightarrow> True
      | ConfigureSSH allowRoot \<Rightarrow> True
      | ToggleService service enable \<Rightarrow> True
      | WriteUSBGuardRules rules \<Rightarrow> True
      | RemoveUSBGuardRules \<Rightarrow> True
      | _ \<Rightarrow> False)"

definition envSecurityDown :: env where
  \<comment> \<open>As \<open>envRotate\<close>, on a host where every security control fails.\<close>
  "envSecurityDown =
     envRotate\<lparr>fails := (\<lambda>n a. if isSecurityControl a then Some ''permission denied'' else None)\<rparr>"

definition usbLocked :: SecurityPolicy where
  \<comment> \<open>\<open>lockedDown\<close> with USBGuard on and the rules of \<^verbatim>\<open>TestWriteUSBGuardRules\<close>.\<close>
  "usbLocked = lockedDown\<lparr>USBGuard := True, USBGuardRules := [''allow id 1'', ''block id 2'']\<rparr>"

section \<open>Shared lemmas\<close>

lemmas host_defs = perform_def timeNow_def NewEvent_def fetchStatus_def triggerReboot_def
  rebase_def rollback_def rollbackRequested_def addEvent_def

lemma maintenanceAllowsNow_Nil: "maintenanceAllowsNow [] t"
  by (simp add: maintenanceAllowsNow_def)

lemma minuteOfWeek_wallClock:
  "wallClockIs t wd hh mm \<Longrightarrow> minuteOfWeek t = wd * 1440 + hh * 60 + mm"
  by (simp add: wallClockIs_def minuteOfWeek_def Let_def minutesPerDay_def)

lemma wallClockIs_utc:
  "wallClockIs (utc s) wd hh mm \<longleftrightarrow>
     ((s - s mod 60) div 86400 + 4) mod 7 = wd \<and> ((s - s mod 60) mod 86400) div 3600 = hh
     \<and> ((s - s mod 60) mod 3600) div 60 = mm"
  by (simp add: wallClockIs_def utc_def TruncateMinute_def Weekday_def Hour_def Minute_def)

section \<open>Maintenance windows\<close>

lemma parse_monFri:
  "parseMaintenanceWindows [''Mon-Fri 02:00-03:00''] = Inr monFriSegments"
  unfolding monFriSegments_def by code_simp

lemma parse_sunNight:
  "parseMaintenanceWindows [''Sun 23:00-01:00''] = Inr sunNightSegments"
  unfolding sunNightSegments_def by code_simp

text \<open>
  C6. The entry \<^verbatim>\<open>"Mon-Fri 02:00-03:00"\<close> parses to one segment per weekday; the
  segments admit every instant that reads Monday 02:30 and reject every instant that
  reads Monday 04:00. The overnight entry \<^verbatim>\<open>"Sun 23:00-01:00"\<close> parses to two
  segments on consecutive days (Sunday 23:00-24:00 and Monday 00:00-01:00); they admit
  Sunday 23:30 and Monday 00:30 and reject Monday 02:00.
\<close>

theorem maintenance_window_examples:
  "parseMaintenanceWindows [''Mon-Fri 02:00-03:00''] = Inr monFriSegments \<and>
   parseMaintenanceWindows [''Sun 23:00-01:00''] = Inr sunNightSegments \<and>
   (wallClockIs t 1 2 30 \<longrightarrow> maintenanceAllowsNow monFriSegments t) \<and>
   (wallClockIs t 1 4 0 \<longrightarrow> \<not> maintenanceAllowsNow monFriSegments t) \<and>
   (wallClockIs t 0 23 30 \<longrightarrow> maintenanceAllowsNow sunNightSegments t) \<and>
   (wallClockIs t 1 0 30 \<longrightarrow> maintenanceAllowsNow sunNightSegments t) \<and>
   (wallClockIs t 1 2 0 \<longrightarrow> \<not> maintenanceAllowsNow sunNightSegments t)"
  by (auto simp: parse_monFri parse_sunNight maintenanceAllowsNow_def minuteOfWeek_wallClock
        monFriSegments_def sunNightSegments_def)

theorem maintenance_window_examples_witness:
  "wallClockIs (utc 1704076200) 1 2 30 \<and> maintenanceAllowsNow monFriSegments (utc 1704076200) \<and>
   wallClockIs (utc 1704081600) 1 4 0 \<and> \<not> maintenanceAllowsNow monFriSegments (utc 1704081600) \<and>
   wallClockIs (utc 1704670200) 0 23 30 \<and> maintenanceAllowsNow sunNightSegments (utc 1704670200) \<and>
   wallClockIs (utc 1704673800) 1 0 30 \<and> maintenanceAllowsNow sunNightSegments (utc 1704673800) \<and>
   wallClockIs (utc 1704679200) 1 2 0 \<and> \<not> maintenanceAllowsNow sunNightSegments (utc 1704679200)"
proof -
  have a: "wallClockIs (utc 1704076200) 1 2 30" by (simp add: wallClockIs_utc)
  have b: "wallClockIs (utc 1704081600) 1 4 0" by (simp add: wallClockIs_utc)
  have c: "wallClockIs (utc 1704670200) 0 23 30" by (simp add: wallClockIs_utc)
  have d: "wallClockIs (utc 1704673800) 1 0 30" by (simp add: wallClockIs_utc)
  have e: "wallClockIs (utc 1704679200) 1 2 0" by (simp add: wallClockIs_utc)
  show ?thesis
    using a b c d e
      maintenance_window_examples [of "utc 1704076200"]
      maintenance_window_examples [of "utc 1704081600"]
      maintenance_window_examples [of "utc 1704670200"]
      maintenance_window_examples [of "utc 1704673800"]
      maintenance_window_examples [of "utc 1704679200"]
    by blast
qed

section \<open>The reboot gate\<close>

lemma applyReboot_no_windows:
  assumes "up_RebootRequired policy" "res_RebootRequired result"
  shows "applyReboot E policy [] result h =
     (let n = length (trace h);
          ev = \<lparr>ev_id = Itoa (UnixNano (wall E (Suc (Suc n)))),
                ev_type = (if fails E (Suc n) RebootCmd = None then ''update.reboot.triggered''
                           else ''update.reboot.failure''),
                ev_timestamp = UTC (wall E (Suc (Suc (Suc n)))),
                ev_payload = (case fails E (Suc n) RebootCmd of
                                None \<Rightarrow> [(''time'', TimeText (wall E n))]
                              | Some msg \<Rightarrow> [(''error'', ErrText (HostError msg))])\<rparr>
      in ((result\<lparr>Events := Events result @ [ev]\<rparr>,
           map_option HostError (fails E (Suc n) RebootCmd)),
          h\<lparr>trace := trace h @ [ReadClock, RebootCmd, ReadClock, ReadClock]\<rparr>))"
  using assms
  by (simp add: applyReboot_def host_defs maintenanceAllowsNow_Nil Let_def split: option.splits)

lemma updates_Apply_gate:
  assumes "fetchStatus E h = (Inr status, h1)"
      and "parseMaintenanceWindows (Maintenance policy) = Inr windows"
      and "applyChannel E policy status
             \<lparr>res_Status = State status, res_RebootRequired = RebootRequired status, Events = []\<rparr> h1
           = ((result1, None), h2)"
  shows "updates_Apply E policy h = applyReboot E policy windows result1 h2"
  using assms by (simp add: updates_Apply_def Let_def)

lemma sample_fetch:
  "fetchStatus envFrozen hostEmpty = (Inr (sampleStatus True False), hostEmpty\<lparr>trace := [FetchStatus]\<rparr>)"
  by (simp add: fetchStatus_def perform_def envFrozen_def hostEmpty_def)

lemma sample_parse: "parseMaintenanceWindows (Maintenance rebootPolicy) = Inr []"
  by (simp add: rebootPolicy_def parseMaintenanceWindows_def)

lemma sample_channel:
  "applyChannel envFrozen rebootPolicy (sampleStatus True False)
     \<lparr>res_Status = State (sampleStatus True False),
      res_RebootRequired = RebootRequired (sampleStatus True False), Events = []\<rparr>
     (hostEmpty\<lparr>trace := [FetchStatus]\<rparr>)
   = ((\<lparr>res_Status = ''idle'', res_RebootRequired = True, Events = []\<rparr>, None),
      hostEmpty\<lparr>trace := [FetchStatus]\<rparr>)"
  by (simp add: applyChannel_def rebootPolicy_def sampleStatus_def)

text \<open>
  C9. With an empty segment list \<^verbatim>\<open>maintenanceAllowsNow\<close> is true at every instant.
  So when the maintenance-window list of an update policy parses to no segments, the
  policy requires a reboot and a reboot is pending once the channel has been handled,
  \<^verbatim>\<open>Apply\<close> reads the clock and runs the reboot command at once, whatever the clock
  reads.
\<close>

theorem empty_windows_reboot_at_once:
  assumes "fetchStatus E h = (Inr status, h1)"
      and "parseMaintenanceWindows (Maintenance policy) = Inr []"
      and "applyChannel E policy status
             \<lparr>res_Status = State status, res_RebootRequired = RebootRequired status, Events = []\<rparr> h1
           = ((result1, None), h2)"
      and "up_RebootRequired policy" and "res_RebootRequired result1"
  shows "maintenanceAllowsNow [] t \<and>
         trace (snd (updates_Apply E policy h)) = trace h2 @ [ReadClock, RebootCmd, ReadClock, ReadClock]"
  using assms(4,5)
  by (simp add: updates_Apply_gate [OF assms(1-3)] applyReboot_no_windows maintenanceAllowsNow_Nil Let_def)

theorem empty_windows_reboot_at_once_witness:
  "fetchStatus envFrozen hostEmpty = (Inr (sampleStatus True False), hostEmpty\<lparr>trace := [FetchStatus]\<rparr>) \<and>
   parseMaintenanceWindows (Maintenance rebootPolicy) = Inr [] \<and>
   up_RebootRequired rebootPolicy \<and>
   maintenanceAllowsNow [] (utc 1704081600) \<and>
   trace (snd (updates_Apply envFrozen rebootPolicy hostEmpty))
     = [FetchStatus, ReadClock, RebootCmd, ReadClock, ReadClock]"
proof -
  have r: "up_RebootRequired rebootPolicy" by (simp add: rebootPolicy_def)
  have p: "res_RebootRequired \<lparr>res_Status = ''idle'', res_RebootRequired = True, Events = []\<rparr>" by simp
  from empty_windows_reboot_at_once [OF sample_fetch sample_parse sample_channel r p, of "utc 1704081600"]
  show ?thesis using sample_fetch sample_parse r by (simp add: hostEmpty_def)
qed





section \<open>Security controls\<close>

lemma security_Apply_error: "snd (fst (security_Apply E policy h)) = None"
  by (simp add: security_Apply_def Let_def case_prod_beta)

lemma fanOut_snoc_security:
  "snd (fst (fanOut (as @ [security_Apply E policy]) h)) = snd (fst (fanOut as h))"
proof (induction as arbitrary: h)
  case Nil
  show ?case by (simp add: security_Apply_error)
next
  case (Cons a as)
  show ?case by (cases "snd (fst (a h))") (simp_all add: Cons.IH)
qed

section \<open>Configuration\<close>

lemma Validate_iff:
  "Validate c = None \<longleftrightarrow>
     BackendURL c \<noteq> [] \<and> DeviceTokenPath c \<noteq> [] \<and> PolicyCachePath c \<noteq> [] \<and>
     EventQueuePath c \<noteq> [] \<and> PolicyPublicKey c \<noteq> [] \<and>
     PolicyPoll (cfg_Intervals c) \<noteq> 0 \<and> StateReport (cfg_Intervals c) \<noteq> 0 \<and>
     EventFlush (cfg_Intervals c) \<noteq> 0"
  by (simp add: Validate_def)

text \<open>
  C3. \<^verbatim>\<open>Validate\<close> does not look at the state queue path: the configuration of the
  repository's own test, with \<^verbatim>\<open>state_queue_path\<close> left out, passes validation.
\<close>

theorem validate_accepts_missing_state_queue_path:
  "StateQueuePath configWithoutStateQueue = [] \<and> Validate configWithoutStateQueue = None"
  by (simp add: configWithoutStateQueue_def Validate_def)

section \<open>The event queue\<close>

lemma writeFile_ok: "writeFile E p d h = (None, h') \<Longrightarrow> files h' p = Some d"
  by (simp add: writeFile_def perform_def split: option.splits) auto

lemma renameFile_ok:
  "renameFile E s t h = (None, h') \<Longrightarrow> files h' t = files h s \<and> files h s \<noteq> None"
  by (simp add: renameFile_def perform_def split: option.splits) auto

lemma writeLocked_ok:
  assumes "queue_writeLocked E q evs h = (None, h3)"
  shows "files h3 (q_path q) = Some (EventsDoc evs)"
proof -
  obtain e1 h1 where p1: "EnsureParentDir E (q_path q) h = (e1, h1)"
    by (cases "EnsureParentDir E (q_path q) h")
  obtain e2 h2 where p2: "writeFile E (q_path q @ ''.tmp'') (EventsDoc evs) h1 = (e2, h2)"
    by (cases "writeFile E (q_path q @ ''.tmp'') (EventsDoc evs) h1")
  obtain e3 h3' where p3: "renameFile E (q_path q @ ''.tmp'') (q_path q) h2 = (e3, h3')"
    by (cases "renameFile E (q_path q @ ''.tmp'') (q_path q) h2")
  from assms p1 p2 p3 have "e1 = None" "e2 = None" "e3 = None" "h3' = h3"
    by (simp_all add: queue_writeLocked_def split: option.splits)
  with p2 p3 writeFile_ok renameFile_ok show ?thesis by metis
qed

lemma Load_eq_readLocked: "queue_Load E q h = queue_readLocked E q h"
  by (simp add: queue_Load_def queue_readLocked_def)

lemma Load_of_doc:
  "files h (q_path q) = Some (EventsDoc evs)
   \<Longrightarrow> fails E (length (trace h)) (ReadFile (q_path q)) = None
   \<Longrightarrow> fst (queue_Load E q h) = Inr evs"
  by (simp add: queue_Load_def readFile_def perform_def decodeEvents_def)

lemma readFile_fail:
  "fails E (length (trace h)) (ReadFile p) = Some msg
   \<Longrightarrow> fst (readFile E p h) = Inl (HostError msg)"
  by (simp add: readFile_def perform_def)

lemma readLocked_ok_read:
  assumes "fst (queue_readLocked E q h) = Inr pre"
  shows "fails E (length (trace h)) (ReadFile (q_path q)) = None"
proof (cases "fails E (length (trace h)) (ReadFile (q_path q))")
  case None
  then show ?thesis .
next
  case (Some msg)
  then obtain h' where "readFile E (q_path q) h = (Inl (HostError msg), h')"
    using readFile_fail [OF Some] by (metis prod.collapse)
  with assms show ?thesis by (simp add: queue_readLocked_def)
qed

lemma Append_ok:
  assumes "queue_Append E q xs h = (None, h1)" and "xs \<noteq> []"
  shows "\<exists>pre. fst (queue_Load E q h) = Inr pre
           \<and> fails E (length (trace h)) (ReadFile (q_path q)) = None
           \<and> files h1 (q_path q) = Some (EventsDoc (pre @ xs))"
proof -
  obtain r h0 where r: "queue_readLocked E q h = (r, h0)" by (cases "queue_readLocked E q h")
  with assms obtain pre where pre: "r = Inr pre"
      and w: "queue_writeLocked E q (pre @ xs) h0 = (None, h1)"
    by (cases r) (auto simp: queue_Append_def)
  from r pre have l: "fst (queue_Load E q h) = Inr pre" by (simp add: Load_eq_readLocked)
  from r pre have "fails E (length (trace h)) (ReadFile (q_path q)) = None"
    using readLocked_ok_read [of E q h pre] by simp
  with l writeLocked_ok [OF w] show ?thesis by blast
qed

lemma Append_then_Load:
  assumes "queue_Append E q xs h = (None, h1)" and "xs \<noteq> []"
      and "fails E (length (trace h1)) (ReadFile (q_path q)) = None"
  shows "\<exists>pre. fst (queue_Load E q h) = Inr pre \<and> fst (queue_Load E q h1) = Inr (pre @ xs)"
  using Append_ok [OF assms(1,2)] Load_of_doc [OF _ assms(3)] by blast

lemma appendEach_Cons:
  assumes "appendEach E q (x # xs) h = (None, h1)"
  shows "\<exists>h'. queue_Append E q [x] h = (None, h') \<and> appendEach E q xs h' = (None, h1)"
proof (cases "fst (queue_Append E q [x] h)")
  case None
  with assms show ?thesis by (metis appendEach.simps(2) option.simps(4) prod.collapse)
next
  case (Some e)
  with assms show ?thesis by (metis appendEach.simps(2) option.simps(5) option.distinct(1) fst_conv)
qed

lemma appendEach_read_ok:
  assumes "appendEach E q (y # ys) h = (None, h1)"
  shows "fails E (length (trace h)) (ReadFile (q_path q)) = None"
proof -
  from appendEach_Cons [OF assms] obtain h' where "queue_Append E q [y] h = (None, h')" by blast
  from Append_ok [OF this] show ?thesis by blast
qed

lemma appendEach_then_Load:
  "fst (queue_Load E q h) = Inr pre \<Longrightarrow> appendEach E q xs h = (None, h1)
   \<Longrightarrow> fails E (length (trace h1)) (ReadFile (q_path q)) = None
   \<Longrightarrow> fst (queue_Load E q h1) = Inr (pre @ xs)"
proof (induction xs arbitrary: h pre)
  case Nil
  then show ?case by simp
next
  case (Cons x xs)
  from appendEach_Cons [OF Cons.prems(2)] obtain h'
    where a: "queue_Append E q [x] h = (None, h')" and rest: "appendEach E q xs h' = (None, h1)"
    by blast
  have rd: "fails E (length (trace h')) (ReadFile (q_path q)) = None"
  proof (cases xs)
    case Nil
    with rest Cons.prems(3) show ?thesis by simp
  next
    case (Cons y ys)
    with rest appendEach_read_ok [of E q y ys h' h1] show ?thesis by blast
  qed
  from Append_then_Load [OF a _ rd] Cons.prems(1)
  have "fst (queue_Load E q h') = Inr (pre @ [x])" by auto
  from Cons.IH [OF this rest Cons.prems(3)] show ?case by simp
qed

text \<open>
  C7. When \<^verbatim>\<open>Append(x)\<close> succeeds and the file can be read afterwards, the queue held
  some sequence \<open>pre\<close> before and \<^verbatim>\<open>Load\<close> now returns \<open>pre\<close> followed by \<open>x\<close>. After any
  number of successful appends the file holds the earlier contents followed by the
  appended events in the order of the appends. The queue keeps nothing in memory but
  its path, so a queue opened on the same file after a restart loads the same sequence.
\<close>

theorem queue_append_load:
  assumes "fails E (length (trace h1)) (ReadFile (q_path q)) = None"
  shows "(queue_Append E q [x] h = (None, h1) \<longrightarrow>
            (\<exists>pre. fst (queue_Load E q h) = Inr pre \<and> fst (queue_Load E q h1) = Inr (pre @ [x])))
       \<and> (fst (queue_Load E q h) = Inr pre \<and> appendEach E q xs h = (None, h1) \<longrightarrow>
            fst (queue_Load E q h1) = Inr (pre @ xs))"
  using assms Append_then_Load [of E q "[x]" h h1] appendEach_then_Load [of E q h pre xs h1]
  by auto

lemma frozen_Append:
  assumes "files h ''/var/lib/evergreen/events.json'' = Some (EventsDoc es)"
  shows "queue_Append envFrozen sampleQueue [x] h =
     (None,
      h\<lparr>trace := trace h @ [ReadFile ''/var/lib/evergreen/events.json'',
                             MkdirAll ''/var/lib/evergreen'',
                             WriteFile ''/var/lib/evergreen/events.json.tmp'',
                             Rename ''/var/lib/evergreen/events.json.tmp''
                               ''/var/lib/evergreen/events.json''],
        files := (files h)(''/var/lib/evergreen/events.json.tmp'' := None,
                           ''/var/lib/evergreen/events.json'' \<mapsto> EventsDoc (es @ [x]))\<rparr>)"
  using assms
  by (simp add: queue_Append_def queue_readLocked_def queue_writeLocked_def readFile_def
        writeFile_def renameFile_def EnsureParentDir_def EnsureDir_def perform_def
        decodeEvents_def envFrozen_def sampleQueue_def sampleDir_def Let_def)

lemma queued_append:
  "fst (queue_Append envFrozen sampleQueue [secondEvent] hostQueued) = None \<and>
   files (snd (queue_Append envFrozen sampleQueue [secondEvent] hostQueued))
     ''/var/lib/evergreen/events.json'' = Some (EventsDoc [firstEvent, secondEvent])"
  using frozen_Append [of hostQueued "[firstEvent]" secondEvent]
  by (simp add: hostQueued_def)

lemma queued_appendEach:
  "fst (appendEach envFrozen sampleQueue [secondEvent, thirdEvent] hostQueued) = None"
proof -
  let ?h1 = "snd (queue_Append envFrozen sampleQueue [secondEvent] hostQueued)"
  have "files ?h1 ''/var/lib/evergreen/events.json'' = Some (EventsDoc [firstEvent, secondEvent])"
    by (simp add: queued_append)
  from frozen_Append [OF this, of thirdEvent]
  have "fst (queue_Append envFrozen sampleQueue [thirdEvent] ?h1) = None" by simp
  then show ?thesis by (simp add: queued_append)
qed

theorem queue_append_load_witness:
  "fst (queue_Load envFrozen sampleQueue hostQueued) = Inr [firstEvent] \<and>
   queue_Append envFrozen sampleQueue [secondEvent] hostQueued
     = (None, snd (queue_Append envFrozen sampleQueue [secondEvent] hostQueued)) \<and>
   fails envFrozen
     (length (trace (snd (queue_Append envFrozen sampleQueue [secondEvent] hostQueued))))
     (ReadFile (q_path sampleQueue)) = None \<and>
   fst (queue_Load envFrozen sampleQueue
          (snd (queue_Append envFrozen sampleQueue [secondEvent] hostQueued)))
     = Inr [firstEvent, secondEvent] \<and>
   appendEach envFrozen sampleQueue [secondEvent, thirdEvent] hostQueued
     = (None, snd (appendEach envFrozen sampleQueue [secondEvent, thirdEvent] hostQueued)) \<and>
   fails envFrozen
     (length (trace (snd (appendEach envFrozen sampleQueue [secondEvent, thirdEvent] hostQueued))))
     (ReadFile (q_path sampleQueue)) = None \<and>
   fst (queue_Load envFrozen sampleQueue
          (snd (appendEach envFrozen sampleQueue [secondEvent, thirdEvent] hostQueued)))
     = Inr [firstEvent, secondEvent, thirdEvent]"
proof -
  let ?h1 = "snd (queue_Append envFrozen sampleQueue [secondEvent] hostQueued)"
  let ?h2 = "snd (appendEach envFrozen sampleQueue [secondEvent, thirdEvent] hostQueued)"
  have l0: "fst (queue_Load envFrozen sampleQueue hostQueued) = Inr [firstEvent]"
    by (simp add: queue_Load_def readFile_def perform_def decodeEvents_def envFrozen_def
          hostQueued_def sampleQueue_def)
  have ap: "queue_Append envFrozen sampleQueue [secondEvent] hostQueued = (None, ?h1)"
    using queued_append by (metis prod.collapse)
  have r1: "fails envFrozen (length (trace ?h1)) (ReadFile (q_path sampleQueue)) = None"
    by (simp add: envFrozen_def)
  have ae: "appendEach envFrozen sampleQueue [secondEvent, thirdEvent] hostQueued = (None, ?h2)"
    using queued_appendEach by (metis prod.collapse)
  have r2: "fails envFrozen (length (trace ?h2)) (ReadFile (q_path sampleQueue)) = None"
    by (simp add: envFrozen_def)
  from queue_append_load [OF r1, of secondEvent hostQueued] ap l0
  have a: "fst (queue_Load envFrozen sampleQueue ?h1) = Inr [firstEvent, secondEvent]" by auto
  from queue_append_load [OF r2, of _ hostQueued "[firstEvent]" "[secondEvent, thirdEvent]"] ae l0
  have b: "fst (queue_Load envFrozen sampleQueue ?h2) = Inr [firstEvent, secondEvent, thirdEvent]"
    by auto
  from l0 ap r1 a ae r2 b show ?thesis by blast
qed


section \<open>Rollback orchestration\<close>

lemma EnsureRollback_skip:
  assumes "fails E (length (trace h)) FetchStatus = None"
      and "NeedsRollback (statusOut E (length (trace h)))"
      and "rollbackIdentifier (statusOut E (length (trace h))) = ident"
      and "ident \<noteq> []" and "lastRollbackAttempt m = ident"
  shows "EnsureRollback E m h = ((([], None), m), h\<lparr>trace := trace h @ [FetchStatus]\<rparr>)"
  using assms
  by (simp add: EnsureRollback_def fetchStatus_def perform_def rollbackIdentifier_def Let_def)

lemma EnsureRollback_attempt:
  assumes "fails E (length (trace h)) FetchStatus = None"
      and "NeedsRollback (statusOut E (length (trace h)))"
      and "rollbackIdentifier (statusOut E (length (trace h))) = ident"
      and "lastRollbackAttempt m \<noteq> ident"
  shows "lastRollbackAttempt (snd (fst (EnsureRollback E m h))) = ident
         \<and> trace (snd (EnsureRollback E m h))
             = trace h @ [FetchStatus, RollbackCmd, ReadClock, ReadClock]"
  using assms
  by (simp add: EnsureRollback_def fetchStatus_def perform_def rollbackIdentifier_def
        rollback_def NewEvent_def timeNow_def Let_def split: option.splits)

lemma run_after_attempt:
  assumes "\<forall>n. fails E n FetchStatus = None \<and> NeedsRollback (statusOut E n)
              \<and> rollbackIdentifier (statusOut E n) = ident"
      and "ident \<noteq> []"
  shows "lastRollbackAttempt m = ident
         \<Longrightarrow> rollbacks (snd (ensureRollbackTimes k E m h)) = rollbacks h"
proof (induction k arbitrary: m h)
  case 0
  then show ?case by simp
next
  case (Suc k)
  from assms Suc.prems
  have s: "EnsureRollback E m h = ((([], None), m), h\<lparr>trace := trace h @ [FetchStatus]\<rparr>)"
    by (intro EnsureRollback_skip) auto
  have "rollbacks (h\<lparr>trace := trace h @ [FetchStatus]\<rparr>) = rollbacks h"
    by (simp add: rollbacks_def)
  with Suc.IH [OF Suc.prems, of "h\<lparr>trace := trace h @ [FetchStatus]\<rparr>"] s
  show ?case by simp
qed

text \<open>
  C5 (as amended). In a run of consecutive \<^verbatim>\<open>EnsureRollback\<close> calls during which the
  status always needs rollback and reports the same non-empty identifier (booted
  checksum, falling back to channel), the rollback command is invoked at most once;
  a call whose identifier equals the last attempted identifier invokes no rollback
  command and returns no events.
\<close>

theorem rollback_once_per_run:
  assumes "\<forall>n. fails E n FetchStatus = None \<and> NeedsRollback (statusOut E n)
              \<and> rollbackIdentifier (statusOut E n) = ident"
      and "ident \<noteq> []"
  shows "rollbacks (snd (ensureRollbackTimes k E m h)) \<le> rollbacks h + 1
       \<and> (lastRollbackAttempt m = ident \<longrightarrow>
            fst (fst (EnsureRollback E m h)) = ([], None)
            \<and> rollbacks (snd (EnsureRollback E m h)) = rollbacks h)"
proof
  show "rollbacks (snd (ensureRollbackTimes k E m h)) \<le> rollbacks h + 1"
  proof (cases k)
    case 0
    then show ?thesis by simp
  next
    case (Suc j)
    show ?thesis
    proof (cases "lastRollbackAttempt m = ident")
      case True
      from run_after_attempt [OF assms True, of k h] show ?thesis by simp
    next
      case False
      from assms(1) False
      have a: "lastRollbackAttempt (snd (fst (EnsureRollback E m h))) = ident
               \<and> trace (snd (EnsureRollback E m h))
                   = trace h @ [FetchStatus, RollbackCmd, ReadClock, ReadClock]"
        by (intro EnsureRollback_attempt) auto
      then have "rollbacks (snd (EnsureRollback E m h)) = rollbacks h + 1"
        by (simp add: rollbacks_def)
      with run_after_attempt [OF assms, of "snd (fst (EnsureRollback E m h))" j
          "snd (EnsureRollback E m h)"] a Suc
      show ?thesis by simp
    qed
  qed
next
  show "lastRollbackAttempt m = ident \<longrightarrow>
          fst (fst (EnsureRollback E m h)) = ([], None)
          \<and> rollbacks (snd (EnsureRollback E m h)) = rollbacks h"
  proof
    assume l: "lastRollbackAttempt m = ident"
    from assms l
    have "EnsureRollback E m h = ((([], None), m), h\<lparr>trace := trace h @ [FetchStatus]\<rparr>)"
      by (intro EnsureRollback_skip) auto
    then show "fst (fst (EnsureRollback E m h)) = ([], None)
               \<and> rollbacks (snd (EnsureRollback E m h)) = rollbacks h"
      by (simp add: rollbacks_def)
  qed
qed

theorem rollback_once_per_run_witness:
  "(\<forall>n. fails envBroken n FetchStatus = None \<and> NeedsRollback (statusOut envBroken n)
        \<and> rollbackIdentifier (statusOut envBroken n) = ''X'') \<and>
   rollbacks (snd (ensureRollbackTimes 3 envBroken \<lparr>lastRollbackAttempt = []\<rparr> hostEmpty)) \<le> 1 \<and>
   fst (fst (EnsureRollback envBroken \<lparr>lastRollbackAttempt = ''X''\<rparr> hostEmpty)) = ([], None) \<and>
   rollbacks (snd (EnsureRollback envBroken \<lparr>lastRollbackAttempt = ''X''\<rparr> hostEmpty)) = 0"
proof -
  have a: "\<forall>n. fails envBroken n FetchStatus = None \<and> NeedsRollback (statusOut envBroken n)
              \<and> rollbackIdentifier (statusOut envBroken n) = ''X''"
    by (simp add: envBroken_def envFrozen_def sampleStatus_def rollbackIdentifier_def)
  have b: "''X'' \<noteq> []" by simp
  have z: "rollbacks hostEmpty = 0" by (simp add: rollbacks_def hostEmpty_def)
  from rollback_once_per_run [OF a b, of 3 "\<lparr>lastRollbackAttempt = []\<rparr>" hostEmpty]
       rollback_once_per_run [OF a b, of 0 "\<lparr>lastRollbackAttempt = ''X''\<rparr>" hostEmpty]
  show ?thesis using a z by simp
qed

text \<open>
  C5 as stated fails. The booted deployment \<open>X\<close> needs a rollback, is reported healthy
  once (which clears the last attempted identifier) and needs a rollback again: three
  consecutive calls invoke the rollback command twice for the one booted checksum.
\<close>

theorem rollback_twice_counterexample:
  "BootedChecksum (statusOut envRelapse 0) = ''X'' \<and> NeedsRollback (statusOut envRelapse 0) \<and>
   BootedChecksum (statusOut envRelapse 6) = ''X'' \<and> NeedsRollback (statusOut envRelapse 6) \<and>
   trace (snd (ensureRollbackTimes 3 envRelapse \<lparr>lastRollbackAttempt = []\<rparr> hostEmpty))
     = [FetchStatus, RollbackCmd, ReadClock, ReadClock,
        FetchStatus, ProbeRollbackTarget,
        FetchStatus, RollbackCmd, ReadClock, ReadClock] \<and>
   rollbacks (snd (ensureRollbackTimes 3 envRelapse \<lparr>lastRollbackAttempt = []\<rparr> hostEmpty)) = 2"
  by (simp add: numeral_3_eq_3 rollbacks_def envRelapse_def envFrozen_def sampleStatus_def
        hostEmpty_def EnsureRollback_def fetchStatus_def rollbackRequested_def rollback_def
        perform_def NewEvent_def timeNow_def Let_def)

section \<open>Event identifiers\<close>

lemma natDigits_small: "n < 10 \<Longrightarrow> natDigits n = [char_of (48 + n)]"
  by (simp add: natDigits.simps)

lemma natDigits_large:
  "\<not> n < 10 \<Longrightarrow> natDigits n = natDigits (n div 10) @ [char_of (48 + n mod 10)]"
  by (subst natDigits.simps) simp

lemma natDigits_not_Nil: "natDigits n \<noteq> []"
  by (cases "n < 10") (simp_all add: natDigits_small natDigits_large)

lemma digit_char_inj:
  assumes "char_of (48 + a) = char_of (48 + b)" and "a < 10" and "b < 10"
  shows "a = (b::nat)"
proof -
  from assms(1) have "(of_char (char_of (48 + a)) :: nat) = of_char (char_of (48 + b))" by simp
  with assms(2,3) show ?thesis by simp
qed

lemma natDigits_inj: "natDigits n = natDigits m \<Longrightarrow> n = m"
proof (induction n arbitrary: m rule: natDigits.induct)
  case (1 n)
  show ?case
  proof (cases "n < 10")
    case True
    note n = this
    show ?thesis
    proof (cases "m < 10")
      case True
      with n "1.prems" show ?thesis
        by (auto simp: natDigits_small dest: digit_char_inj)
    next
      case False
      with n "1.prems" natDigits_not_Nil [of "m div 10"] show ?thesis
        by (simp add: natDigits_small natDigits_large)
    qed
  next
    case False
    note n = this
    show ?thesis
    proof (cases "m < 10")
      case True
      with n "1.prems" natDigits_not_Nil [of "n div 10"] show ?thesis
        by (simp add: natDigits_small natDigits_large)
    next
      case False
      with n "1.prems"
      have e: "natDigits (n div 10) = natDigits (m div 10)"
        and c: "char_of (48 + n mod 10) = char_of (48 + m mod 10)"
        by (simp_all add: natDigits_large)
      from "1.IH" [OF n e] have d: "n div 10 = m div 10" .
      from c have "n mod 10 = m mod 10" by (rule digit_char_inj) simp_all
      with d show ?thesis by (metis div_mult_mod_eq)
    qed
  qed
qed

lemma natDigits_digits: "c \<in> set (natDigits n) \<Longrightarrow> 48 \<le> (of_char c :: nat)"
proof (induction n rule: natDigits.induct)
  case (1 n)
  show ?case
  proof (cases "n < 10")
    case True
    with "1.prems" show ?thesis by (auto simp: natDigits_small)
  next
    case False
    with "1.prems" "1.IH" show ?thesis by (auto simp: natDigits_large)
  qed
qed

lemma natDigits_no_minus: "natDigits n \<noteq> CHR ''-'' # s"
proof
  assume "natDigits n = CHR ''-'' # s"
  then have "CHR ''-'' \<in> set (natDigits n)" by simp
  from natDigits_digits [OF this] show False by simp
qed

lemma Itoa_inj: "Itoa i = Itoa j \<Longrightarrow> i = j"
proof -
  assume e: "Itoa i = Itoa j"
  show "i = j"
  proof (cases "i < 0")
    case True
    note i = this
    show ?thesis
    proof (cases "j < 0")
      case True
      with i e have "nat (- i) = nat (- j)" by (auto simp: Itoa_def dest: natDigits_inj)
      with i True show ?thesis by simp
    next
      case False
      with i e natDigits_no_minus [of "nat j" "natDigits (nat (- i))"] show ?thesis
        by (simp add: Itoa_def)
    qed
  next
    case False
    note i = this
    show ?thesis
    proof (cases "j < 0")
      case True
      with i e natDigits_no_minus [of "nat i" "natDigits (nat (- j))"] show ?thesis
        by (simp add: Itoa_def)
    next
      case False
      with i e have "nat i = nat j" by (auto simp: Itoa_def dest: natDigits_inj)
      with i False show ?thesis by simp
    qed
  qed
qed

text \<open>
  C8 (as amended). An event created by \<^verbatim>\<open>NewEvent\<close> has as id the decimal text of the
  wall-clock reading (Unix nanoseconds) taken at its creation, and as timestamp the
  next wall-clock reading, in UTC. Two events created by \<^verbatim>\<open>NewEvent\<close> have different
  ids whenever the clock readings taken for their ids differ.
\<close>

theorem NewEvent_id_timestamp:
  "ev_id (fst (NewEvent E ty p h)) = Itoa (UnixNano (wall E (length (trace h)))) \<and>
   ev_timestamp (fst (NewEvent E ty p h)) = UTC (wall E (Suc (length (trace h)))) \<and>
   zoneOffset (ev_timestamp (fst (NewEvent E ty p h))) = 0 \<and>
   (UnixNano (wall E (length (trace h))) \<noteq> UnixNano (wall E (length (trace h')))
      \<longrightarrow> ev_id (fst (NewEvent E ty p h)) \<noteq> ev_id (fst (NewEvent E ty' p' h')))"
  by (auto simp: NewEvent_def timeNow_def UTC_def Let_def dest: Itoa_inj)

theorem NewEvent_id_timestamp_witness:
  "UnixNano (wall envTicking (length (trace hostEmpty)))
     \<noteq> UnixNano (wall envTicking (length (trace (snd (NewEvent envTicking ''a'' [] hostEmpty))))) \<and>
   ev_id (fst (NewEvent envTicking ''a'' [] hostEmpty))
     \<noteq> ev_id (fst (NewEvent envTicking ''b'' [] (snd (NewEvent envTicking ''a'' [] hostEmpty)))) \<and>
   zoneOffset (ev_timestamp (fst (NewEvent envTicking ''a'' [] hostEmpty))) = 0"
proof -
  have d: "UnixNano (wall envTicking (length (trace hostEmpty)))
     \<noteq> UnixNano (wall envTicking (length (trace (snd (NewEvent envTicking ''a'' [] hostEmpty)))))"
    by (simp add: envTicking_def envFrozen_def hostEmpty_def NewEvent_def timeNow_def UnixNano_def)
  from NewEvent_id_timestamp [of envTicking "''a''" "[]" hostEmpty
      "snd (NewEvent envTicking ''a'' [] hostEmpty)" "''b''" "[]"] d
  show ?thesis by blast
qed

lemma Append_fresh:
  assumes "\<forall>n a. fails E n a = None" and "files h (q_path q) = None" and "xs \<noteq> []"
  shows "files (snd (queue_Append E q xs h)) (q_path q) = Some (EventsDoc xs)"
  using assms
  by (simp add: queue_Append_def queue_readLocked_def queue_writeLocked_def readFile_def
        writeFile_def renameFile_def EnsureParentDir_def EnsureDir_def perform_def Let_def)

lemma perform_files: "files (snd (perform E a h)) = files h"
  by (simp add: perform_def)

lemma NewEvent_files: "files (snd (NewEvent E ty p h)) = files h"
  by (simp add: NewEvent_def timeNow_def Let_def)

lemma report_files: "files (snd (report E outcome f s p)) = files (snd outcome)"
  by (simp add: report_def NewEvent_files split: option.splits)

lemma security_Apply_files: "files (snd (security_Apply E policy h)) = files h"
  by (simp add: security_Apply_def ensureSELinux_def configureSSH_def
        toggleService_def writeUSBGuardRules_def removeUSBGuardRules_def
        report_files perform_files Let_def case_prod_beta)

lemma NewEvent_frozen:
  "NewEvent envFrozen ty p h =
     (\<lparr>ev_id = Itoa 1704081600000000000, ev_type = ty, ev_timestamp = utc 1704081600,
       ev_payload = p\<rparr>, h\<lparr>trace := trace h @ [ReadClock, ReadClock]\<rparr>)"
  by (simp add: NewEvent_def timeNow_def envFrozen_def utc_def UnixNano_def UTC_def Let_def)

lemma report_frozen:
  "fst outcome = None \<Longrightarrow> ev_id (fst (report envFrozen outcome f s p)) = Itoa 1704081600000000000"
  by (simp add: report_def NewEvent_frozen)

lemma perform_frozen: "fst (perform envFrozen a h) = None"
  by (simp add: perform_def envFrozen_def)

lemma frozen_ids:
  "map ev_id (fst (fst (security_Apply envFrozen lockedDown hostEmpty)))
     = [Itoa 1704081600000000000, Itoa 1704081600000000000,
        Itoa 1704081600000000000, Itoa 1704081600000000000]"
  by (simp add: security_Apply_def ensureSELinux_def configureSSH_def
        toggleService_def removeUSBGuardRules_def report_frozen perform_frozen
        lockedDown_def Let_def case_prod_beta)

text \<open>
  C8 as stated fails. On a host whose clock returns the same reading twice (here: at
  every reading), the four events of one run of the security manager carry the same
  id, and the supervisor appends them to the event queue file as they are.
\<close>

theorem duplicate_ids_counterexample:
  "map ev_id (fst (fst (security_Apply envFrozen lockedDown hostEmpty)))
     = [Itoa 1704081600000000000, Itoa 1704081600000000000,
        Itoa 1704081600000000000, Itoa 1704081600000000000] \<and>
   \<not> distinct (map ev_id (fst (fst (security_Apply envFrozen lockedDown hostEmpty)))) \<and>
   files (appendEvents envFrozen (sampleAgent envFrozen)
            (fst (fst (security_Apply envFrozen lockedDown hostEmpty)))
            (snd (security_Apply envFrozen lockedDown hostEmpty)))
         ''/var/lib/evergreen/events.json''
     = Some (EventsDoc (fst (fst (security_Apply envFrozen lockedDown hostEmpty))))"
proof -
  let ?evs = "fst (fst (security_Apply envFrozen lockedDown hostEmpty))"
  let ?h = "snd (security_Apply envFrozen lockedDown hostEmpty)"
  have ne: "?evs \<noteq> []" using frozen_ids by auto
  have f: "\<forall>n a. fails envFrozen n a = None" by (simp add: envFrozen_def)
  have e: "files ?h (q_path (eventQueue (sampleAgent envFrozen))) = None"
    by (simp add: security_Apply_files hostEmpty_def)
  have q: "q_path (eventQueue (sampleAgent envFrozen)) = ''/var/lib/evergreen/events.json''"
    by (simp add: sampleAgent_def)
  from Append_fresh [OF f e ne] ne q
  have "files (appendEvents envFrozen (sampleAgent envFrozen) ?evs ?h)
          ''/var/lib/evergreen/events.json'' = Some (EventsDoc ?evs)"
    by (simp add: appendEvents_def)
  with frozen_ids show ?thesis by simp
qed


section \<open>The reconciliation pipeline\<close>

lemma fanOut_five:
  "fanOut [a1, a2, a3, a4, a5] h =
     (case snd (fst (a1 h)) of Some e \<Rightarrow> a1 h | None \<Rightarrow>
      (case snd (fst (a2 (snd (a1 h)))) of
         Some e \<Rightarrow> ((fst (fst (a1 h)) @ fst (fst (a2 (snd (a1 h)))), Some e), snd (a2 (snd (a1 h))))
       | None \<Rightarrow>
      (case snd (fst (a3 (snd (a2 (snd (a1 h)))))) of
         Some e \<Rightarrow> ((fst (fst (a1 h)) @ fst (fst (a2 (snd (a1 h))))
                      @ fst (fst (a3 (snd (a2 (snd (a1 h)))))), Some e),
                    snd (a3 (snd (a2 (snd (a1 h))))))
       | None \<Rightarrow>
      (case snd (fst (a4 (snd (a3 (snd (a2 (snd (a1 h)))))))) of
         Some e \<Rightarrow> ((fst (fst (a1 h)) @ fst (fst (a2 (snd (a1 h))))
                      @ fst (fst (a3 (snd (a2 (snd (a1 h))))))
                      @ fst (fst (a4 (snd (a3 (snd (a2 (snd (a1 h)))))))), Some e),
                    snd (a4 (snd (a3 (snd (a2 (snd (a1 h))))))))
       | None \<Rightarrow>
         ((fst (fst (a1 h)) @ fst (fst (a2 (snd (a1 h))))
            @ fst (fst (a3 (snd (a2 (snd (a1 h))))))
            @ fst (fst (a4 (snd (a3 (snd (a2 (snd (a1 h))))))))
            @ fst (fst (a5 (snd (a4 (snd (a3 (snd (a2 (snd (a1 h)))))))))),
           snd (fst (a5 (snd (a4 (snd (a3 (snd (a2 (snd (a1 h))))))))))),
          snd (a5 (snd (a4 (snd (a3 (snd (a2 (snd (a1 h))))))))))))))"
  by (simp split: option.splits add: prod_eq_iff)

lemma policy_Apply_refines: "policy_Apply E m envelope h = apply_spec E m envelope h"
  by (simp add: policy_Apply_def apply_spec_def adaptersOf_def updatesAdapter_def fanOut_five
        Let_def case_prod_beta prod_eq_iff del: fanOut.simps split: option.splits)

lemma apply_verification_failure:
  "verifier m = Some verify \<Longrightarrow> verify envelope = Some err
   \<Longrightarrow> policy_Apply E m envelope h = ((([], Some (VerifyPolicy err)), m), h)"
  by (simp add: policy_Apply_def)

lemma apply_success:
  assumes "snd (fst (fst (policy_Apply E m envelope h))) = None"
  shows "lastVersion (snd (fst (policy_Apply E m envelope h))) = Version envelope \<and>
         (\<exists>evs ev. fst (fst (fst (policy_Apply E m envelope h))) = evs @ [ev]
            \<and> ev_type ev = ''policy.apply.success''
            \<and> ev_payload ev = [(''version'', Str (Version envelope))])"
  using assms
  by (simp add: policy_Apply_refines apply_spec_def NewEvent_def timeNow_def Let_def
        split: option.splits)

lemma apply_failure:
  assumes "snd (fst (fst (policy_Apply E m envelope h))) \<noteq> None"
  shows "snd (fst (policy_Apply E m envelope h)) = m"
  using assms
  by (simp add: policy_Apply_refines apply_spec_def Let_def split: option.splits)

lemma persist_ok:
  assumes "fst (policy_persist E m envelope h) = None"
  shows "files (snd (policy_persist E m envelope h)) (cache m) = Some (EnvelopeDoc envelope)"
proof -
  obtain e1 h1 where p1: "EnsureParentDir E (cache m) h = (e1, h1)"
    by (cases "EnsureParentDir E (cache m) h")
  obtain e2 h2 where p2: "writeFile E (cache m @ ''.tmp'') (EnvelopeDoc envelope) h1 = (e2, h2)"
    by (cases "writeFile E (cache m @ ''.tmp'') (EnvelopeDoc envelope) h1")
  obtain e3 h3 where p3: "renameFile E (cache m @ ''.tmp'') (cache m) h2 = (e3, h3)"
    by (cases "renameFile E (cache m @ ''.tmp'') (cache m) h2")
  from assms p1 p2 p3
  have "e1 = None" "e2 = None" "e3 = None" "snd (policy_persist E m envelope h) = h3"
    by (simp_all add: policy_persist_def split: option.splits)
  with p2 p3 writeFile_ok renameFile_ok show ?thesis by metis
qed

lemma fanOut_files:
  assumes "\<forall>adapter\<in>set as. \<forall>h'. files (snd (adapter h')) p = files h' p"
  shows "files (snd (fanOut as h)) p = files h p"
  using assms
proof (induction as arbitrary: h)
  case Nil
  show ?case by simp
next
  case (Cons a as)
  show ?case
  proof (cases "snd (fst (a h))")
    case None
    with Cons.IH [of "snd (a h)"] Cons.prems show ?thesis by simp
  next
    case (Some err)
    with Cons.prems show ?thesis by simp
  qed
qed

lemma apply_success_cache:
  assumes "\<forall>adapter\<in>set (adaptersOf m (Policy envelope)).
             \<forall>h'. files (snd (adapter h')) (cache m) = files h' (cache m)"
      and "snd (fst (fst (policy_Apply E m envelope h))) = None"
  shows "files (snd (policy_Apply E m envelope h)) (cache m) = Some (EnvelopeDoc envelope)"
proof -
  let ?h0 = "snd (policy_persist E m envelope h)"
  let ?out = "fanOut (adaptersOf m (Policy envelope)) ?h0"
  from assms(2) have v: "(case verifier m of None \<Rightarrow> None | Some verify \<Rightarrow> verify envelope) = None"
    by (simp add: policy_Apply_refines apply_spec_def split: option.splits)
  with assms(2) have p: "fst (policy_persist E m envelope h) = None"
    by (simp add: policy_Apply_refines apply_spec_def split: option.splits)
  with v assms(2) have f: "snd (fst ?out) = None"
    by (simp add: policy_Apply_refines apply_spec_def Let_def split: option.splits)
  from v p f have "snd (policy_Apply E m envelope h) =
      snd (NewEvent E ''policy.apply.success'' [(''version'', Str (Version envelope))] (snd ?out))"
    by (simp add: policy_Apply_refines apply_spec_def Let_def)
  then have "files (snd (policy_Apply E m envelope h)) (cache m) = files (snd ?out) (cache m)"
    by (simp add: NewEvent_files)
  also have "\<dots> = files ?h0 (cache m)" using fanOut_files [OF assms(1)] .
  also have "\<dots> = Some (EnvelopeDoc envelope)" using persist_ok [OF p] .
  finally show ?thesis .
qed

text \<open>
  C1. \<^verbatim>\<open>Apply\<close> is the pipeline of the specification: verify, persist, fan out over
  apps, browser, updates, network, security in this order, stop at the first failing
  adapter with the events collected so far and that failure, with the host left as
  that adapter left it; on full success add a \<^verbatim>\<open>policy.apply.success\<close> event that
  carries the version and record the version. A verification failure returns before
  anything is persisted and before any adapter runs: the host is unchanged. When the
  persistence step succeeds, the policy cache holds the envelope, and the adapters
  start from that host. A failure leaves the manager, and so its last applied version,
  unchanged. After a successful \<^verbatim>\<open>Apply\<close> whose adapters leave the cache file alone,
  the policy cache holds the envelope.
\<close>

theorem policy_Apply_pipeline:
  "policy_Apply E m envelope h = apply_spec E m envelope h \<and>
   (verifier m = Some verify \<and> verify envelope = Some err \<longrightarrow>
      policy_Apply E m envelope h = ((([], Some (VerifyPolicy err)), m), h)) \<and>
   (fst (policy_persist E m envelope h) = None \<longrightarrow>
      files (snd (policy_persist E m envelope h)) (cache m) = Some (EnvelopeDoc envelope)) \<and>
   (snd (fst (fst (policy_Apply E m envelope h))) = None \<longrightarrow>
      lastVersion (snd (fst (policy_Apply E m envelope h))) = Version envelope \<and>
      (\<exists>evs ev. fst (fst (fst (policy_Apply E m envelope h))) = evs @ [ev]
         \<and> ev_type ev = ''policy.apply.success''
         \<and> ev_payload ev = [(''version'', Str (Version envelope))])) \<and>
   (snd (fst (fst (policy_Apply E m envelope h))) \<noteq> None \<longrightarrow>
      snd (fst (policy_Apply E m envelope h)) = m) \<and>
   ((\<forall>adapter\<in>set (adaptersOf m (Policy envelope)).
        \<forall>h'. files (snd (adapter h')) (cache m) = files h' (cache m)) \<and>
    snd (fst (fst (policy_Apply E m envelope h))) = None \<longrightarrow>
      files (snd (policy_Apply E m envelope h)) (cache m) = Some (EnvelopeDoc envelope))"
proof (intro conjI impI)
  show "policy_Apply E m envelope h = apply_spec E m envelope h"
    by (rule policy_Apply_refines)
next
  assume "verifier m = Some verify \<and> verify envelope = Some err"
  then show "policy_Apply E m envelope h = ((([], Some (VerifyPolicy err)), m), h)"
    using apply_verification_failure by blast
next
  assume "fst (policy_persist E m envelope h) = None"
  then show "files (snd (policy_persist E m envelope h)) (cache m) = Some (EnvelopeDoc envelope)"
    by (rule persist_ok)
next
  assume ok: "snd (fst (fst (policy_Apply E m envelope h))) = None"
  from apply_success [OF ok]
  show "lastVersion (snd (fst (policy_Apply E m envelope h))) = Version envelope" by blast
  from apply_success [OF ok]
  show "\<exists>evs ev. fst (fst (fst (policy_Apply E m envelope h))) = evs @ [ev]
         \<and> ev_type ev = ''policy.apply.success''
         \<and> ev_payload ev = [(''version'', Str (Version envelope))]" by blast
next
  assume "snd (fst (fst (policy_Apply E m envelope h))) \<noteq> None"
  then show "snd (fst (policy_Apply E m envelope h)) = m" by (rule apply_failure)
next
  assume a: "(\<forall>adapter\<in>set (adaptersOf m (Policy envelope)).
        \<forall>h'. files (snd (adapter h')) (cache m) = files h' (cache m)) \<and>
    snd (fst (fst (policy_Apply E m envelope h))) = None"
  from a have f: "\<forall>adapter\<in>set (adaptersOf m (Policy envelope)).
        \<forall>h'. files (snd (adapter h')) (cache m) = files h' (cache m)" by (rule conjunct1)
  from a have ok: "snd (fst (fst (policy_Apply E m envelope h))) = None" by (rule conjunct2)
  from apply_success_cache [OF f ok]
  show "files (snd (policy_Apply E m envelope h)) (cache m) = Some (EnvelopeDoc envelope)" .
qed

lemma sample_cache: "cache (sampleManager E) = ''/var/lib/evergreen/policy.json''"
  by (simp add: sampleManager_def)

lemma sample_fields:
  "verifier (sampleManager E) = None" "apps (sampleManager E) = (\<lambda>p. idle)"
  "browser (sampleManager E) = (\<lambda>p. idle)" "updates (sampleManager E) = updates_Apply E"
  "network (sampleManager E) = (\<lambda>p. idle)" "security (sampleManager E) = security_Apply E"
  "lastVersion (sampleManager E) = ''v1''"
  by (simp_all add: sampleManager_def)

lemma envelope_fields:
  "Version envelopeV2 = ''v2''" "env_DeviceToken envelopeV2 = ''t2''"
  "pd_Updates (Policy envelopeV2) = \<lparr>up_Channel = [], up_RebootRequired = False, Maintenance = []\<rparr>"
  "pd_Security (Policy envelopeV2) = lockedDown"
  by (simp_all add: envelopeV2_def)

lemma sample_persist:
  "policy_persist envFrozen (sampleManager E) envelope hostEmpty =
     (None, \<lparr>trace = [MkdirAll ''/var/lib/evergreen'',
                      WriteFile ''/var/lib/evergreen/policy.json.tmp'',
                      Rename ''/var/lib/evergreen/policy.json.tmp'' ''/var/lib/evergreen/policy.json''],
             files = [''/var/lib/evergreen/policy.json'' \<mapsto> EnvelopeDoc envelope]\<rparr>)"
  by (simp add: policy_persist_def sample_cache EnsureParentDir_def EnsureDir_def writeFile_def
        renameFile_def perform_def envFrozen_def hostEmpty_def sampleDir_def Let_def)

lemma sample_persist_noostree:
  "policy_persist envNoOstree (sampleManager E) envelope hostEmpty =
     (None, \<lparr>trace = [MkdirAll ''/var/lib/evergreen'',
                      WriteFile ''/var/lib/evergreen/policy.json.tmp'',
                      Rename ''/var/lib/evergreen/policy.json.tmp'' ''/var/lib/evergreen/policy.json''],
             files = [''/var/lib/evergreen/policy.json'' \<mapsto> EnvelopeDoc envelope]\<rparr>)"
  by (simp add: policy_persist_def sample_cache EnsureParentDir_def EnsureDir_def writeFile_def
        renameFile_def perform_def envNoOstree_def envFrozen_def hostEmpty_def sampleDir_def Let_def)

lemma sample_updates_ok:
  "snd (fst (updates_Apply envFrozen
       \<lparr>up_Channel = [], up_RebootRequired = False, Maintenance = []\<rparr> h)) = None"
  by (simp add: updates_Apply_def applyChannel_def applyReboot_def fetchStatus_def perform_def
        envFrozen_def parseMaintenanceWindows_def Let_def)

lemma sample_updates_fail:
  "updates_Apply envNoOstree p h =
     ((\<lparr>res_Status = ''unavailable'', res_RebootRequired = False, Events = []\<rparr>,
       Some (HostError ''rpm-ostree not available'')), h\<lparr>trace := trace h @ [FetchStatus]\<rparr>)"
  by (simp add: updates_Apply_def fetchStatus_def perform_def envNoOstree_def)

lemma sample_apply_ok:
  "snd (fst (fst (policy_Apply envFrozen (sampleManager envFrozen) envelopeV2 hostEmpty))) = None"
  by (simp add: policy_Apply_refines apply_spec_def adaptersOf_def updatesAdapter_def fanOut_five
        sample_persist sample_updates_ok security_Apply_error idle_def envelope_fields
        sample_fields Let_def del: fanOut.simps)

lemma sample_apply_fail:
  "policy_Apply envNoOstree (sampleManager envNoOstree) envelopeV2 hostEmpty =
     ((([], Some (HostError ''rpm-ostree not available'')), sampleManager envNoOstree),
      \<lparr>trace = [MkdirAll ''/var/lib/evergreen'',
                WriteFile ''/var/lib/evergreen/policy.json.tmp'',
                Rename ''/var/lib/evergreen/policy.json.tmp'' ''/var/lib/evergreen/policy.json'',
                FetchStatus],
       files = [''/var/lib/evergreen/policy.json'' \<mapsto> EnvelopeDoc envelopeV2]\<rparr>)"
  by (simp add: policy_Apply_refines apply_spec_def adaptersOf_def updatesAdapter_def fanOut_five
        sample_persist_noostree sample_updates_fail idle_def
        sample_fields Let_def del: fanOut.simps)

lemma fetchStatus_files: "files (snd (fetchStatus E h)) = files h"
  by (simp add: fetchStatus_def perform_def split: option.splits)

lemma applyChannel_files: "files (snd (applyChannel E policy status result h)) = files h"
  by (simp add: applyChannel_def rebase_def perform_def NewEvent_files fetchStatus_files
        case_prod_beta Let_def split: option.splits sum.splits)

lemma applyReboot_files: "files (snd (applyReboot E policy windows result h)) = files h"
  by (simp add: applyReboot_def triggerReboot_def perform_def timeNow_def NewEvent_files
        case_prod_beta Let_def split: option.splits)

lemma updates_Apply_files: "files (snd (updates_Apply E policy h)) = files h"
proof (cases "fst (fetchStatus E h)")
  case (Inl err)
  then obtain h1 where "fetchStatus E h = (Inl err, h1)" by (metis prod.collapse)
  with fetchStatus_files [of E h] show ?thesis by (simp add: updates_Apply_def)
next
  case (Inr status)
  then obtain h1 where f: "fetchStatus E h = (Inr status, h1)" by (metis prod.collapse)
  with fetchStatus_files [of E h] have h1: "files h1 = files h" by simp
  from f h1 show ?thesis
    by (simp add: updates_Apply_def NewEvent_files applyChannel_files applyReboot_files
          case_prod_beta Let_def split: option.splits sum.splits)
qed

lemma sample_adapters_keep_cache:
  "\<forall>adapter\<in>set (adaptersOf (sampleManager E) p).
     \<forall>h'. files (snd (adapter h')) c = files h' c"
  by (simp add: adaptersOf_def updatesAdapter_def sample_fields idle_def updates_Apply_files
        security_Apply_files)

theorem policy_Apply_pipeline_witness:
  "policy_Apply envFrozen ((sampleManager envFrozen)\<lparr>verifier := Some rejecting\<rparr>) envelopeV2 hostEmpty
     = ((([], Some (VerifyPolicy (HostError ''signature verification failed''))),
         (sampleManager envFrozen)\<lparr>verifier := Some rejecting\<rparr>), hostEmpty) \<and>
   fst (policy_persist envFrozen (sampleManager envFrozen) envelopeV2 hostEmpty) = None \<and>
   files (snd (policy_persist envFrozen (sampleManager envFrozen) envelopeV2 hostEmpty))
     ''/var/lib/evergreen/policy.json'' = Some (EnvelopeDoc envelopeV2) \<and>
   snd (fst (fst (policy_Apply envFrozen (sampleManager envFrozen) envelopeV2 hostEmpty))) = None \<and>
   lastVersion (snd (fst (policy_Apply envFrozen (sampleManager envFrozen) envelopeV2 hostEmpty)))
     = ''v2'' \<and>
   files (snd (policy_Apply envFrozen (sampleManager envFrozen) envelopeV2 hostEmpty))
     ''/var/lib/evergreen/policy.json'' = Some (EnvelopeDoc envelopeV2) \<and>
   snd (fst (fst (policy_Apply envNoOstree (sampleManager envNoOstree) envelopeV2 hostEmpty)))
     = Some (HostError ''rpm-ostree not available'') \<and>
   snd (fst (policy_Apply envNoOstree (sampleManager envNoOstree) envelopeV2 hostEmpty))
     = sampleManager envNoOstree \<and>
   trace (snd (policy_Apply envNoOstree (sampleManager envNoOstree) envelopeV2 hostEmpty))
     = [MkdirAll ''/var/lib/evergreen'',
        WriteFile ''/var/lib/evergreen/policy.json.tmp'',
        Rename ''/var/lib/evergreen/policy.json.tmp'' ''/var/lib/evergreen/policy.json'',
        FetchStatus]"
proof -
  have v: "verifier ((sampleManager envFrozen)\<lparr>verifier := Some rejecting\<rparr>) = Some rejecting
           \<and> rejecting envelopeV2 = Some (HostError ''signature verification failed'')"
    by (simp add: rejecting_def)
  have f: "snd (fst (fst (policy_Apply envNoOstree (sampleManager envNoOstree) envelopeV2 hostEmpty)))
             \<noteq> None"
    by (simp add: sample_apply_fail)
  have ver: "Version envelopeV2 = ''v2''" by (simp add: envelopeV2_def)
  have p: "fst (policy_persist envFrozen (sampleManager envFrozen) envelopeV2 hostEmpty) = None"
    by (simp add: sample_persist)
  from policy_Apply_pipeline [of envFrozen "(sampleManager envFrozen)\<lparr>verifier := Some rejecting\<rparr>"
        envelopeV2 hostEmpty rejecting "HostError ''signature verification failed''"] v
  have a: "policy_Apply envFrozen ((sampleManager envFrozen)\<lparr>verifier := Some rejecting\<rparr>)
             envelopeV2 hostEmpty
           = ((([], Some (VerifyPolicy (HostError ''signature verification failed''))),
               (sampleManager envFrozen)\<lparr>verifier := Some rejecting\<rparr>), hostEmpty)"
    by blast
  note ok = policy_Apply_pipeline [of envFrozen "sampleManager envFrozen" envelopeV2 hostEmpty]
  from ok sample_apply_ok
  have "lastVersion (snd (fst (policy_Apply envFrozen (sampleManager envFrozen) envelopeV2
          hostEmpty))) = Version envelopeV2"
    by blast
  with ver
  have b: "lastVersion (snd (fst (policy_Apply envFrozen (sampleManager envFrozen) envelopeV2
             hostEmpty))) = ''v2''"
    by simp
  from ok p
  have "files (snd (policy_persist envFrozen (sampleManager envFrozen) envelopeV2 hostEmpty))
          (cache (sampleManager envFrozen)) = Some (EnvelopeDoc envelopeV2)"
    by blast
  then have d: "files (snd (policy_persist envFrozen (sampleManager envFrozen) envelopeV2 hostEmpty))
          ''/var/lib/evergreen/policy.json'' = Some (EnvelopeDoc envelopeV2)"
    by (simp only: sample_cache)
  from ok sample_apply_ok
       sample_adapters_keep_cache [of envFrozen "Policy envelopeV2" "cache (sampleManager envFrozen)"]
  have "files (snd (policy_Apply envFrozen (sampleManager envFrozen) envelopeV2 hostEmpty))
          (cache (sampleManager envFrozen)) = Some (EnvelopeDoc envelopeV2)"
    by blast
  then have e: "files (snd (policy_Apply envFrozen (sampleManager envFrozen) envelopeV2 hostEmpty))
          ''/var/lib/evergreen/policy.json'' = Some (EnvelopeDoc envelopeV2)"
    by (simp only: sample_cache)
  from policy_Apply_pipeline [of envNoOstree "sampleManager envNoOstree" envelopeV2 hostEmpty] f
  have c: "snd (fst (policy_Apply envNoOstree (sampleManager envNoOstree) envelopeV2 hostEmpty))
             = sampleManager envNoOstree"
    by blast
  have g: "snd (fst (fst (policy_Apply envNoOstree (sampleManager envNoOstree) envelopeV2 hostEmpty)))
             = Some (HostError ''rpm-ostree not available'')"
     and t: "trace (snd (policy_Apply envNoOstree (sampleManager envNoOstree) envelopeV2 hostEmpty))
     = [MkdirAll ''/var/lib/evergreen'',
        WriteFile ''/var/lib/evergreen/policy.json.tmp'',
        Rename ''/var/lib/evergreen/policy.json.tmp'' ''/var/lib/evergreen/policy.json'',
        FetchStatus]"
    by (simp_all add: sample_apply_fail)
  from a p d sample_apply_ok b e g c t show ?thesis by blast
qed


section \<open>Token rotation\<close>

lemma WriteSecretFile_ok:
  assumes "WriteSecretFile E p d h = (None, h')"
  shows "files h' p = Some d \<and> trace h' = trace h @ secureWrite E p"
proof -
  from assms have ne: "p \<noteq> []" by (auto simp: WriteSecretFile_def split: if_splits)
  obtain e1 h1 where p1: "EnsureParentDir E p h = (e1, h1)" by (cases "EnsureParentDir E p h")
  obtain e2 h2 where p2: "writeFile E (p @ ''.tmp'') d h1 = (e2, h2)"
    by (cases "writeFile E (p @ ''.tmp'') d h1")
  obtain e3 h3 where p3: "perform E (Chmod (p @ ''.tmp'')) h2 = (e3, h3)"
    by (cases "perform E (Chmod (p @ ''.tmp'')) h2")
  obtain e4 h4 where p4: "renameFile E (p @ ''.tmp'') p h3 = (e4, h4)"
    by (cases "renameFile E (p @ ''.tmp'') p h3")
  from assms ne p1 p2 p3 p4 have n: "e1 = None" "e2 = None" "e3 = None" "e4 = None" "h4 = h'"
    by (simp_all add: WriteSecretFile_def split: option.splits)
  from p1 n(1) have t1: "trace h1 = trace h @
      (if filepathDir E p = ''.'' \<or> filepathDir E p = [] then [] else [MkdirAll (filepathDir E p)])"
    by (auto simp: EnsureParentDir_def EnsureDir_def perform_def Let_def split: if_splits option.splits)
  from p2 n(2) have t2: "trace h2 = trace h1 @ [WriteFile (p @ ''.tmp'')]"
      and f2: "files h2 (p @ ''.tmp'') = Some d"
    by (auto simp: writeFile_def perform_def split: option.splits)
  from p3 have t3: "trace h3 = trace h2 @ [Chmod (p @ ''.tmp'')]" and f3: "files h3 = files h2"
    by (auto simp: perform_def)
  from p4 n(4) have t4: "trace h4 = trace h3 @ [Rename (p @ ''.tmp'') p]"
      and f4: "files h4 p = files h3 (p @ ''.tmp'')"
    by (auto simp: renameFile_def perform_def split: option.splits)
  from t1 t2 t3 t4 f2 f3 f4 n(5) show ?thesis by (simp add: secureWrite_def)
qed

lemma Persist_ok:
  assumes "Persist E m c envelope h = (None, h')"
  shows "files h' (credentialsPath m) = Some (CredentialsDoc c envelope)
         \<and> trace h' = trace h @ secureWrite E (credentialsPath m)"
proof -
  obtain e h1 where w: "WriteSecretFile E (credentialsPath m) (CredentialsDoc c envelope) h = (e, h1)"
    by (cases "WriteSecretFile E (credentialsPath m) (CredentialsDoc c envelope) h")
  with assms have "e = None" "h1 = h'"
    by (simp_all add: Persist_def saveCredentials_def split: option.splits)
  with w WriteSecretFile_ok show ?thesis by blast
qed

lemma rotated_credentials:
  "c\<lparr>DeviceToken := t, cred_Version := v\<rparr>
     = \<lparr>DeviceID = DeviceID c, DeviceToken = t, cred_Version = v\<rparr>"
  by (cases c) simp

lemma applyPulled_rotation:
  assumes "fst (fst (applyPulled E a envelope h)) = None"
      and "env_DeviceToken envelope \<noteq> []"
      and "env_DeviceToken envelope \<noteq> DeviceToken (credentials a)"
  shows "credentials (snd (fst (applyPulled E a envelope h)))
           = \<lparr>DeviceID = DeviceID (credentials a), DeviceToken = env_DeviceToken envelope,
              cred_Version = Version envelope\<rparr>
       \<and> files (snd (applyPulled E a envelope h)) (credentialsPath (enrollMgr a))
           = Some (CredentialsDoc
               \<lparr>DeviceID = DeviceID (credentials a), DeviceToken = env_DeviceToken envelope,
                cred_Version = Version envelope\<rparr> envelope)
       \<and> trace (snd (applyPulled E a envelope h))
           = trace (afterApply E a envelope h) @ secureWrite E (credentialsPath (enrollMgr a))"
proof -
  let ?c = "\<lparr>DeviceID = DeviceID (credentials a), DeviceToken = env_DeviceToken envelope,
             cred_Version = Version envelope\<rparr>"
  let ?h2 = "afterApply E a envelope h"
  obtain e h3 where p: "Persist E (enrollMgr a) ?c envelope ?h2 = (e, h3)"
    by (cases "Persist E (enrollMgr a) ?c envelope ?h2")
  from assms have ok: "snd (fst (fst (policy_Apply E (policyMgr a) envelope h))) = None"
    by (auto simp: applyPulled_def case_prod_beta Let_def split: option.splits)
  from assms(2,3) ok p
  have r: "applyPulled E a envelope h =
        ((map_option (Wrapped ''persist credentials'') e,
          a\<lparr>policyMgr := snd (fst (policy_Apply E (policyMgr a) envelope h)),
            credentials := ?c\<rparr>), h3)"
    by (cases e)
      (simp_all add: applyPulled_def afterApply_def case_prod_beta Let_def rotated_credentials)
  with assms(1) have "e = None" by (cases e) simp_all
  with p Persist_ok [of E "enrollMgr a" ?c envelope ?h2 h3] r show ?thesis by simp
qed

text \<open>
  C4. The policy tick hands the credentials and the envelope to the enrollment
  manager's \<^verbatim>\<open>Persist\<close>. When the pulled envelope carries a token that is non-empty and
  differs from the current one and the tick succeeds, the agent holds the rotated
  token and the envelope's version, the credential file holds these credentials
  together with the envelope, and after applying the policy and enqueuing the events
  the tick performs exactly the actions of one secure write of the credential file.
\<close>

theorem token_rotation_persisted:
  assumes "pullVersion E a h = (version, h1)"
      and "pullOut E (length (trace h1)) = Pulled envelope"
      and "env_DeviceToken envelope \<noteq> []"
      and "env_DeviceToken envelope \<noteq> DeviceToken (credentials a)"
      and "fst (fst (pullAndApplyPolicy E a h)) = None"
  shows "credentials (snd (fst (pullAndApplyPolicy E a h)))
           = \<lparr>DeviceID = DeviceID (credentials a), DeviceToken = env_DeviceToken envelope,
              cred_Version = Version envelope\<rparr>
       \<and> files (snd (pullAndApplyPolicy E a h)) (credentialsPath (enrollMgr a))
           = Some (CredentialsDoc
               \<lparr>DeviceID = DeviceID (credentials a), DeviceToken = env_DeviceToken envelope,
                cred_Version = Version envelope\<rparr> envelope)
       \<and> trace (snd (pullAndApplyPolicy E a h))
           = trace (afterApply E a envelope
                (h1\<lparr>trace := trace h1 @ [PullPolicy (DeviceToken (credentials a)) version]\<rparr>))
             @ secureWrite E (credentialsPath (enrollMgr a))"
proof -
  let ?h2 = "h1\<lparr>trace := trace h1 @ [PullPolicy (DeviceToken (credentials a)) version]\<rparr>"
  from assms(1,2) have e: "pullAndApplyPolicy E a h = applyPulled E a envelope ?h2"
    by (simp add: pullAndApplyPolicy_def clientPullPolicy_def)
  with assms(5) have "fst (fst (applyPulled E a envelope ?h2)) = None" by simp
  from applyPulled_rotation [OF this assms(3,4)] e show ?thesis by simp
qed

lemma nofail_persist:
  assumes "\<forall>n a. fails E n a = None"
  shows "fst (policy_persist E m envelope h) = None"
  using assms
  by (simp add: policy_persist_def EnsureParentDir_def EnsureDir_def writeFile_def
        renameFile_def perform_def Let_def)

lemma nofail_updates:
  assumes "\<forall>n a. fails E n a = None"
  shows "snd (fst (updates_Apply E
           \<lparr>up_Channel = [], up_RebootRequired = False, Maintenance = []\<rparr> h)) = None"
  using assms
  by (simp add: updates_Apply_def applyChannel_def applyReboot_def fetchStatus_def perform_def
        parseMaintenanceWindows_def Let_def)

lemma nofail_apply:
  assumes "\<forall>n a. fails E n a = None"
  shows "snd (fst (fst (policy_Apply E (sampleManager E) envelopeV2 h))) = None"
  using nofail_persist [OF assms] nofail_updates [OF assms]
  by (simp add: policy_Apply_refines apply_spec_def adaptersOf_def updatesAdapter_def fanOut_five
        security_Apply_error idle_def envelope_fields sample_fields Let_def del: fanOut.simps)

lemma nofail_Persist:
  assumes "\<forall>n a. fails E n a = None" and "credentialsPath m \<noteq> []"
  shows "fst (Persist E m c envelope h) = None"
  using assms
  by (simp add: Persist_def saveCredentials_def WriteSecretFile_def EnsureParentDir_def
        EnsureDir_def writeFile_def renameFile_def perform_def Let_def)

lemma nofail_applyPulled:
  assumes "\<forall>n a. fails E n a = None"
  shows "fst (fst (applyPulled E (sampleAgent E) envelopeV2 h)) = None"
proof -
  have p: "credentialsPath (enrollMgr (sampleAgent E)) \<noteq> []" by (simp add: sampleAgent_def)
  have m: "policyMgr (sampleAgent E) = sampleManager E" by (simp add: sampleAgent_def)
  from nofail_apply [OF assms, of h] m
  show ?thesis
    by (simp add: applyPulled_def case_prod_beta Let_def nofail_Persist [OF assms] p)
qed

theorem token_rotation_persisted_witness:
  "pullVersion envRotate (sampleAgent envRotate) hostEmpty = (''v1'', hostEmpty) \<and>
   pullOut envRotate (length (trace hostEmpty)) = Pulled envelopeV2 \<and>
   env_DeviceToken envelopeV2 \<noteq> [] \<and>
   env_DeviceToken envelopeV2 \<noteq> DeviceToken (credentials (sampleAgent envRotate)) \<and>
   fst (fst (pullAndApplyPolicy envRotate (sampleAgent envRotate) hostEmpty)) = None \<and>
   credentials (snd (fst (pullAndApplyPolicy envRotate (sampleAgent envRotate) hostEmpty)))
     = \<lparr>DeviceID = ''d1'', DeviceToken = ''t2'', cred_Version = ''v2''\<rparr> \<and>
   files (snd (pullAndApplyPolicy envRotate (sampleAgent envRotate) hostEmpty))
       ''/etc/evergreen/token''
     = Some (CredentialsDoc \<lparr>DeviceID = ''d1'', DeviceToken = ''t2'', cred_Version = ''v2''\<rparr>
         envelopeV2)"
proof -
  have nf: "\<forall>n a. fails envRotate n a = None" by (simp add: envRotate_def envFrozen_def)
  have pv: "pullVersion envRotate (sampleAgent envRotate) hostEmpty = (''v1'', hostEmpty)"
    by (simp add: pullVersion_def LastVersion_def sampleAgent_def sample_fields)
  have po: "pullOut envRotate (length (trace hostEmpty)) = Pulled envelopeV2"
    by (simp add: envRotate_def)
  have t1: "env_DeviceToken envelopeV2 \<noteq> []" by (simp add: envelope_fields)
  have t2: "env_DeviceToken envelopeV2 \<noteq> DeviceToken (credentials (sampleAgent envRotate))"
    by (simp add: envelope_fields sampleAgent_def)
  have ok: "fst (fst (pullAndApplyPolicy envRotate (sampleAgent envRotate) hostEmpty)) = None"
    using pv po nofail_applyPulled [OF nf]
    by (simp add: pullAndApplyPolicy_def clientPullPolicy_def)
  have c: "credentials (sampleAgent envRotate)
             = \<lparr>DeviceID = ''d1'', DeviceToken = ''t1'', cred_Version = ''v1''\<rparr>"
      and p: "credentialsPath (enrollMgr (sampleAgent envRotate)) = ''/etc/evergreen/token''"
    by (simp_all add: sampleAgent_def)
  from token_rotation_persisted [OF pv po t1 t2 ok] c p
  show ?thesis using pv po t1 t2 ok by (simp add: envelope_fields)
qed


section \<open>Security controls never fail the reconciliation\<close>

lemma report_kind:
  "(ev_type (fst (report E (perform E a h) f s p)), ev_payload (fst (report E (perform E a h) f s p)))
     = (case fails E (length (trace h)) a of
          Some msg \<Rightarrow> (f, [(''error'', ErrText (HostError msg))])
        | None \<Rightarrow> (s, p))"
  by (simp add: report_def perform_def NewEvent_def timeNow_def Let_def split: option.splits)

lemma report_length:
  "length (trace (snd (report E (perform E a h) f s p))) = length (trace h) + 3"
  by (simp add: report_def perform_def NewEvent_def timeNow_def Let_def split: option.splits)

lemma perform_length: "length (trace (snd (perform E a h))) = length (trace h) + 1"
  by (simp add: perform_def)

lemma security_Apply_events:
  "map (\<lambda>e. (ev_type e, ev_payload e)) (fst (fst (security_Apply E policy h))) =
     [(case fails E (length (trace h)) (EnsureSELinux (SELinuxEnforce policy)) of
         Some msg \<Rightarrow> (''security.selinux.failure'', [(''error'', ErrText (HostError msg))])
       | None \<Rightarrow> (''security.selinux.success'',
           [(''state'', Str (if SELinuxEnforce policy then ''enforcing'' else ''permissive''))])),
      (case fails E (length (trace h) + 3) (ConfigureSSH (AllowRootLogin policy)) of
         Some msg \<Rightarrow> (''security.ssh.config.failure'', [(''error'', ErrText (HostError msg))])
       | None \<Rightarrow> (''security.ssh.config.success'',
           [(''root_login'', Str (if AllowRootLogin policy then ''enabled'' else ''disabled''))])),
      (case fails E (length (trace h) + 6) (ToggleService ''sshd'' (SSHEnabled policy)) of
         Some msg \<Rightarrow> (''security.ssh.failure'', [(''error'', ErrText (HostError msg))])
       | None \<Rightarrow> (''security.ssh.success'',
           [(''state'', Str (if SSHEnabled policy then ''enabled'' else ''disabled''))]))]
     @ (if USBGuard policy
        then [(case fails E (length (trace h) + 9) (WriteUSBGuardRules (USBGuardRules policy)) of
                 Some msg \<Rightarrow> (''security.usbguard.failure'', [(''error'', ErrText (HostError msg))])
               | None \<Rightarrow> (''security.usbguard.rules'',
                   [(''count'', Str (Itoa (int (length (USBGuardRules policy)))))]))]
        else [])
     @ [(case fails E (length (trace h) + (if USBGuard policy then 12 else 10))
               (ToggleService ''usbguard'' (USBGuard policy)) of
           Some msg \<Rightarrow> (''security.usbguard.failure'', [(''error'', ErrText (HostError msg))])
         | None \<Rightarrow> (''security.usbguard.success'',
             [(''state'', Str (if USBGuard policy then ''enabled'' else ''disabled''))]))]"
  by (simp add: security_Apply_def ensureSELinux_def configureSSH_def toggleService_def
        writeUSBGuardRules_def removeUSBGuardRules_def report_kind report_length perform_length
        Let_def case_prod_beta add.commute [of "length (trace h)"])

lemma apply_security_last:
  assumes "security m = security_Apply E"
  shows "snd (fst (fst (policy_Apply E m envelope h)))
           = snd (fst (fst (policy_Apply E (m\<lparr>security := (\<lambda>p. idle)\<rparr>) envelope h)))"
proof -
  have p: "policy_persist E (m\<lparr>security := (\<lambda>p. idle)\<rparr>) envelope h = policy_persist E m envelope h"
    by (simp add: policy_persist_def cong: prod.case_cong option.case_cong)
  show ?thesis
    by (simp add: policy_Apply_refines apply_spec_def adaptersOf_def updatesAdapter_def
          fanOut_five assms security_Apply_error idle_def p Let_def
          del: fanOut.simps split: option.splits)
qed

lemma tick_returns_nil:
  assumes sec: "security (policyMgr a) = security_Apply E"
      and pv: "pullVersion E a h = (version, h1)"
      and pulled: "pullOut E (length (trace h1)) = Pulled envelope"
      and rest: "snd (fst (fst (policy_Apply E ((policyMgr a)\<lparr>security := (\<lambda>p. idle)\<rparr>) envelope
                   (h1\<lparr>trace := trace h1 @ [PullPolicy (DeviceToken (credentials a)) version]\<rparr>))))
                 = None"
      and persist: "\<forall>c h'. fst (Persist E (enrollMgr a) c envelope h') = None"
  shows "fst (fst (pullAndApplyPolicy E a h)) = None"
proof -
  let ?h2 = "h1\<lparr>trace := trace h1 @ [PullPolicy (DeviceToken (credentials a)) version]\<rparr>"
  from pv pulled have e: "pullAndApplyPolicy E a h = applyPulled E a envelope ?h2"
    by (simp add: pullAndApplyPolicy_def clientPullPolicy_def)
  from apply_security_last [OF sec, of envelope ?h2] rest
  have ok: "snd (fst (fst (policy_Apply E (policyMgr a) envelope ?h2))) = None" by simp
  from ok persist have "fst (fst (applyPulled E a envelope ?h2)) = None"
    by (simp add: applyPulled_def case_prod_beta Let_def)
  with e show ?thesis by simp
qed

text \<open>
  C10. The security manager's \<^verbatim>\<open>Apply\<close> returns a nil error for every policy, every
  host and every outcome of its controls. What a control's failure leaves behind is an
  event and nothing else: the events are, in this order, one for SELinux, one for the
  SSH configuration, one for the SSH service, one for the USBGuard rules when USBGuard
  is on, and one for the USBGuard service; each is the control's failure event carrying
  the error when the control failed, and its success event otherwise. (With USBGuard
  off the rules file is removed instead; a failure of the removal is logged only.)
  So at the end of any fan-out the security adapter never changes the error of the
  fan-out, and the error of the reconciliation is the one it would have with a security
  adapter that does nothing. When the rest of a policy tick succeeds, the tick returns
  nil whatever the controls did, and the policy loop continues with its nominal
  interval and its base delay: no backoff.
\<close>

theorem security_Apply_never_fails:
  "snd (fst (security_Apply E policy h)) = None \<and>
   map (\<lambda>e. (ev_type e, ev_payload e)) (fst (fst (security_Apply E policy h))) =
     [(case fails E (length (trace h)) (EnsureSELinux (SELinuxEnforce policy)) of
         Some msg \<Rightarrow> (''security.selinux.failure'', [(''error'', ErrText (HostError msg))])
       | None \<Rightarrow> (''security.selinux.success'',
           [(''state'', Str (if SELinuxEnforce policy then ''enforcing'' else ''permissive''))])),
      (case fails E (length (trace h) + 3) (ConfigureSSH (AllowRootLogin policy)) of
         Some msg \<Rightarrow> (''security.ssh.config.failure'', [(''error'', ErrText (HostError msg))])
       | None \<Rightarrow> (''security.ssh.config.success'',
           [(''root_login'', Str (if AllowRootLogin policy then ''enabled'' else ''disabled''))])),
      (case fails E (length (trace h) + 6) (ToggleService ''sshd'' (SSHEnabled policy)) of
         Some msg \<Rightarrow> (''security.ssh.failure'', [(''error'', ErrText (HostError msg))])
       | None \<Rightarrow> (''security.ssh.success'',
           [(''state'', Str (if SSHEnabled policy then ''enabled'' else ''disabled''))]))]
     @ (if USBGuard policy
        then [(case fails E (length (trace h) + 9) (WriteUSBGuardRules (USBGuardRules policy)) of
                 Some msg \<Rightarrow> (''security.usbguard.failure'', [(''error'', ErrText (HostError msg))])
               | None \<Rightarrow> (''security.usbguard.rules'',
                   [(''count'', Str (Itoa (int (length (USBGuardRules policy)))))]))]
        else [])
     @ [(case fails E (length (trace h) + (if USBGuard policy then 12 else 10))
               (ToggleService ''usbguard'' (USBGuard policy)) of
           Some msg \<Rightarrow> (''security.usbguard.failure'', [(''error'', ErrText (HostError msg))])
         | None \<Rightarrow> (''security.usbguard.success'',
             [(''state'', Str (if USBGuard policy then ''enabled'' else ''disabled''))]))] \<and>
   snd (fst (fanOut (as @ [security_Apply E policy]) h)) = snd (fst (fanOut as h)) \<and>
   (security m = security_Apply E \<longrightarrow>
      snd (fst (fst (policy_Apply E m envelope h)))
        = snd (fst (fst (policy_Apply E (m\<lparr>security := (\<lambda>p. idle)\<rparr>) envelope h)))) \<and>
   (security (policyMgr a) = security_Apply E \<and>
    pullVersion E a h = (version, h1) \<and>
    pullOut E (length (trace h1)) = Pulled envelope \<and>
    snd (fst (fst (policy_Apply E ((policyMgr a)\<lparr>security := (\<lambda>p. idle)\<rparr>) envelope
       (h1\<lparr>trace := trace h1 @ [PullPolicy (DeviceToken (credentials a)) version]\<rparr>)))) = None \<and>
    (\<forall>c h'. fst (Persist E (enrollMgr a) c envelope h') = None) \<longrightarrow>
      fst (fst (pullAndApplyPolicy E a h)) = None \<and>
      fst (fst (policyLoopPass E interval baseBackoff maxDelay a wd h)) = (interval, baseBackoff))"
proof (intro conjI impI)
  show "snd (fst (security_Apply E policy h)) = None" by (rule security_Apply_error)
next
  show "snd (fst (fanOut (as @ [security_Apply E policy]) h)) = snd (fst (fanOut as h))"
    by (rule fanOut_snoc_security)
next
  assume "security m = security_Apply E"
  then show "snd (fst (fst (policy_Apply E m envelope h)))
        = snd (fst (fst (policy_Apply E (m\<lparr>security := (\<lambda>p. idle)\<rparr>) envelope h)))"
    by (rule apply_security_last)
next
  assume a: "security (policyMgr a) = security_Apply E \<and>
    pullVersion E a h = (version, h1) \<and>
    pullOut E (length (trace h1)) = Pulled envelope \<and>
    snd (fst (fst (policy_Apply E ((policyMgr a)\<lparr>security := (\<lambda>p. idle)\<rparr>) envelope
       (h1\<lparr>trace := trace h1 @ [PullPolicy (DeviceToken (credentials a)) version]\<rparr>)))) = None \<and>
    (\<forall>c h'. fst (Persist E (enrollMgr a) c envelope h') = None)"
  then have nil: "fst (fst (pullAndApplyPolicy E a h)) = None"
    using tick_returns_nil [of a E h version h1 envelope] by blast
  then show "fst (fst (pullAndApplyPolicy E a h)) = None" .
  from nil show "fst (fst (policyLoopPass E interval baseBackoff maxDelay a wd h))
                   = (interval, baseBackoff)"
    by (simp add: policyLoopPass_def backoffNext_def)
qed (rule security_Apply_events)

lemma down_fails:
  "fails envSecurityDown n a = (if isSecurityControl a then Some ''permission denied'' else None)"
  by (simp add: envSecurityDown_def)

lemma down_persist: "fst (policy_persist envSecurityDown m envelope h) = None"
  by (simp add: policy_persist_def EnsureParentDir_def EnsureDir_def writeFile_def
        renameFile_def perform_def down_fails isSecurityControl_def Let_def)

lemma down_updates:
  "snd (fst (updates_Apply envSecurityDown
       \<lparr>up_Channel = [], up_RebootRequired = False, Maintenance = []\<rparr> h)) = None"
  by (simp add: updates_Apply_def applyChannel_def applyReboot_def fetchStatus_def perform_def
        down_fails isSecurityControl_def parseMaintenanceWindows_def Let_def)

lemma down_apply:
  "snd (fst (fst (policy_Apply envSecurityDown
       ((sampleManager envSecurityDown)\<lparr>security := (\<lambda>p. idle)\<rparr>) envelopeV2 h))) = None"
  using down_persist [of "(sampleManager envSecurityDown)\<lparr>security := (\<lambda>p. idle)\<rparr>" envelopeV2 h]
        down_updates
  by (simp add: policy_Apply_refines apply_spec_def adaptersOf_def updatesAdapter_def fanOut_five
        idle_def envelope_fields sample_fields Let_def del: fanOut.simps)

lemma down_Persist:
  "fst (Persist envSecurityDown \<lparr>credentialsPath = ''/etc/evergreen/token''\<rparr> c envelope h) = None"
  by (simp add: Persist_def saveCredentials_def WriteSecretFile_def EnsureParentDir_def
        EnsureDir_def writeFile_def renameFile_def perform_def down_fails isSecurityControl_def
        Let_def)

theorem security_Apply_never_fails_witness:
  "snd (fst (security_Apply envSecurityDown usbLocked hostEmpty)) = None \<and>
   map (\<lambda>e. (ev_type e, ev_payload e)) (fst (fst (security_Apply envSecurityDown usbLocked hostEmpty)))
     = [(''security.selinux.failure'', [(''error'', ErrText (HostError ''permission denied''))]),
        (''security.ssh.config.failure'', [(''error'', ErrText (HostError ''permission denied''))]),
        (''security.ssh.failure'', [(''error'', ErrText (HostError ''permission denied''))]),
        (''security.usbguard.failure'', [(''error'', ErrText (HostError ''permission denied''))]),
        (''security.usbguard.failure'', [(''error'', ErrText (HostError ''permission denied''))])] \<and>
   security (sampleManager envSecurityDown) = security_Apply envSecurityDown \<and>
   snd (fst (fst (policy_Apply envSecurityDown (sampleManager envSecurityDown) envelopeV2 hostEmpty)))
     = None \<and>
   security (policyMgr (sampleAgent envSecurityDown)) = security_Apply envSecurityDown \<and>
   pullVersion envSecurityDown (sampleAgent envSecurityDown) hostEmpty = (''v1'', hostEmpty) \<and>
   pullOut envSecurityDown (length (trace hostEmpty)) = Pulled envelopeV2 \<and>
   snd (fst (fst (policy_Apply envSecurityDown
       ((policyMgr (sampleAgent envSecurityDown))\<lparr>security := (\<lambda>p. idle)\<rparr>) envelopeV2
       (hostEmpty\<lparr>trace := trace hostEmpty
          @ [PullPolicy (DeviceToken (credentials (sampleAgent envSecurityDown))) ''v1'']\<rparr>))))
     = None \<and>
   (\<forall>c h'. fst (Persist envSecurityDown (enrollMgr (sampleAgent envSecurityDown)) c envelopeV2 h')
              = None) \<and>
   fst (fst (pullAndApplyPolicy envSecurityDown (sampleAgent envSecurityDown) hostEmpty)) = None \<and>
   fst (fst (policyLoopPass envSecurityDown 300000000000 5000000000 300000000000
               (sampleAgent envSecurityDown) (5000000000, 10000000000) hostEmpty))
     = (300000000000, 5000000000)"
proof -
  let ?a = "sampleAgent envSecurityDown"
  let ?m = "sampleManager envSecurityDown"
  note inst = security_Apply_never_fails [where E = envSecurityDown and policy = usbLocked
      and h = hostEmpty and m = ?m and a = ?a and version = "''v1''" and ?h1.0 = hostEmpty
      and envelope = envelopeV2 and interval = 300000000000 and baseBackoff = 5000000000
      and maxDelay = 300000000000 and wd = "(5000000000, 10000000000)"]
  have pm: "policyMgr ?a = ?m" and em: "enrollMgr ?a = \<lparr>credentialsPath = ''/etc/evergreen/token''\<rparr>"
    by (simp_all add: sampleAgent_def)
  have sec: "security ?m = security_Apply envSecurityDown" by (simp add: sample_fields)
  have sec': "security (policyMgr ?a) = security_Apply envSecurityDown" by (simp add: pm sec)
  have pv: "pullVersion envSecurityDown ?a hostEmpty = (''v1'', hostEmpty)"
    by (simp add: pullVersion_def LastVersion_def pm sample_fields)
  have po: "pullOut envSecurityDown (length (trace hostEmpty)) = Pulled envelopeV2"
    by (simp add: envSecurityDown_def envRotate_def)
  have rest: "snd (fst (fst (policy_Apply envSecurityDown
       ((policyMgr ?a)\<lparr>security := (\<lambda>p. idle)\<rparr>) envelopeV2
       (hostEmpty\<lparr>trace := trace hostEmpty @ [PullPolicy (DeviceToken (credentials ?a)) ''v1'']\<rparr>))))
     = None"
    by (simp only: pm down_apply)
  have rest0: "snd (fst (fst (policy_Apply envSecurityDown (?m\<lparr>security := (\<lambda>p. idle)\<rparr>) envelopeV2
                 hostEmpty))) = None"
    by (rule down_apply)
  have ps: "\<forall>c h'. fst (Persist envSecurityDown (enrollMgr ?a) c envelopeV2 h') = None"
    by (simp only: em down_Persist) simp
  from inst have e1: "snd (fst (security_Apply envSecurityDown usbLocked hostEmpty)) = None"
    by (rule conjunct1)
  from inst
  have "map (\<lambda>e. (ev_type e, ev_payload e)) (fst (fst (security_Apply envSecurityDown usbLocked hostEmpty)))
     = [(case fails envSecurityDown (length (trace hostEmpty))
              (EnsureSELinux (SELinuxEnforce usbLocked)) of
         Some msg \<Rightarrow> (''security.selinux.failure'', [(''error'', ErrText (HostError msg))])
       | None \<Rightarrow> (''security.selinux.success'',
           [(''state'', Str (if SELinuxEnforce usbLocked then ''enforcing'' else ''permissive''))])),
      (case fails envSecurityDown (length (trace hostEmpty) + 3)
              (ConfigureSSH (AllowRootLogin usbLocked)) of
         Some msg \<Rightarrow> (''security.ssh.config.failure'', [(''error'', ErrText (HostError msg))])
       | None \<Rightarrow> (''security.ssh.config.success'',
           [(''root_login'', Str (if AllowRootLogin usbLocked then ''enabled'' else ''disabled''))])),
      (case fails envSecurityDown (length (trace hostEmpty) + 6)
              (ToggleService ''sshd'' (SSHEnabled usbLocked)) of
         Some msg \<Rightarrow> (''security.ssh.failure'', [(''error'', ErrText (HostError msg))])
       | None \<Rightarrow> (''security.ssh.success'',
           [(''state'', Str (if SSHEnabled usbLocked then ''enabled'' else ''disabled''))]))]
     @ (if USBGuard usbLocked
        then [(case fails envSecurityDown (length (trace hostEmpty) + 9)
                      (WriteUSBGuardRules (USBGuardRules usbLocked)) of
                 Some msg \<Rightarrow> (''security.usbguard.failure'', [(''error'', ErrText (HostError msg))])
               | None \<Rightarrow> (''security.usbguard.rules'',
                   [(''count'', Str (Itoa (int (length (USBGuardRules usbLocked)))))]))]
        else [])
     @ [(case fails envSecurityDown (length (trace hostEmpty) + (if USBGuard usbLocked then 12 else 10))
               (ToggleService ''usbguard'' (USBGuard usbLocked)) of
           Some msg \<Rightarrow> (''security.usbguard.failure'', [(''error'', ErrText (HostError msg))])
         | None \<Rightarrow> (''security.usbguard.success'',
             [(''state'', Str (if USBGuard usbLocked then ''enabled'' else ''disabled''))]))]"
    by blast
  then have e2: "map (\<lambda>e. (ev_type e, ev_payload e))
        (fst (fst (security_Apply envSecurityDown usbLocked hostEmpty)))
     = [(''security.selinux.failure'', [(''error'', ErrText (HostError ''permission denied''))]),
        (''security.ssh.config.failure'', [(''error'', ErrText (HostError ''permission denied''))]),
        (''security.ssh.failure'', [(''error'', ErrText (HostError ''permission denied''))]),
        (''security.usbguard.failure'', [(''error'', ErrText (HostError ''permission denied''))]),
        (''security.usbguard.failure'', [(''error'', ErrText (HostError ''permission denied''))])]"
    by (simp add: down_fails isSecurityControl_def usbLocked_def lockedDown_def)
  from inst sec
  have "snd (fst (fst (policy_Apply envSecurityDown ?m envelopeV2 hostEmpty)))
          = snd (fst (fst (policy_Apply envSecurityDown (?m\<lparr>security := (\<lambda>p. idle)\<rparr>) envelopeV2
                 hostEmpty)))"
    by blast
  with rest0 have e3: "snd (fst (fst (policy_Apply envSecurityDown ?m envelopeV2 hostEmpty))) = None"
    by simp
  from inst sec' pv po rest ps
  have e4: "fst (fst (pullAndApplyPolicy envSecurityDown ?a hostEmpty)) = None \<and>
      fst (fst (policyLoopPass envSecurityDown 300000000000 5000000000 300000000000 ?a
                  (5000000000, 10000000000) hostEmpty)) = (300000000000, 5000000000)"
    by blast
  from e1 e2 sec e3 sec' pv po rest ps e4 show ?thesis by blast
qed


end
